theory Spec2Isabelle
  imports Main "HOL-Library.Word"
begin

section \<open>Mutable object channels: the channel manager and the provider\<close>

text \<open>
  A shallow embedding of \<^verbatim>\<open>ray/core_worker/experimental_mutable_object_manager.cc\<close>
  (the POSIX branch, \<^verbatim>\<open>defined(__APPLE__) || defined(__linux__)\<close>) and of
  \<^verbatim>\<open>ray/core_worker/experimental_mutable_object_provider.cc\<close>.

  The model is sequential: it describes one call at a time, made by one thread of one
  process, on a state that holds the manager's two maps, the objects they own and the
  named semaphores of the kernel. What a call can do besides returning is part of its
  result.
\<close>

subsection \<open>Results of a call\<close>

text \<open>
  \<^item> \<open>Returns x\<close>: the call returns \<open>x\<close> (for a function returning \<^verbatim>\<open>Status\<close>, the status
    code together with the state it leaves).
  \<^item> \<open>Halts\<close>: a \<^verbatim>\<open>RAY_CHECK\<close> fails. \<^verbatim>\<open>RAY_CHECK\<close>, \<^verbatim>\<open>RAY_CHECK_LE\<close>, \<^verbatim>\<open>RAY_CHECK_OK\<close> and the
    other macros of that family log at severity FATAL and abort the process; they are
    compiled into every build (the debug-only family is \<^verbatim>\<open>RAY_DCHECK\<close>, which these two
    files do not use).
  \<^item> \<open>Blocks\<close>: the call waits (on a mutex, a semaphore or a spin loop) for something that
    only another thread or process can do; alone, it never returns.
  \<^item> \<open>Undefined\<close>: the call runs into undefined behaviour (signed overflow, a
    \<^verbatim>\<open>memcpy\<close> outside its buffers, unlocking a mutex that is not held).
\<close>

datatype 'a outcome = Returns 'a | Halts | Blocks | Undefined

fun obind :: "'a outcome \<Rightarrow> ('a \<Rightarrow> 'b outcome) \<Rightarrow> 'b outcome" where
  "obind (Returns x) f = f x"
| "obind Halts f = Halts"
| "obind Blocks f = Blocks"
| "obind Undefined f = Undefined"

text \<open>The codes of \<^verbatim>\<open>ray::Status\<close> that the two files use; the message is left out.\<close>

datatype StatusCode = OK | Invalid | InvalidArgument | ObjectNotFound | IOError | NotImplemented

subsection \<open>Machine integers and bytes\<close>

text \<open>
  \<^verbatim>\<open>int64_t\<close> and \<^verbatim>\<open>size_t\<close>/\<^verbatim>\<open>uint64_t\<close> are 64-bit words; \<open>sint\<close> reads a word as the
  signed value, \<open>unat\<close> as the unsigned one, so a conversion between the two C++ types
  is the identity on the word. Unsigned arithmetic wraps around (\<open>+\<close> on words). Signed
  overflow is undefined behaviour: a signed addition is guarded by \<open>add_overflows\<close>.
\<close>

type_synonym int64 = "64 word"
type_synonym uint64 = "64 word"
type_synonym byte = "8 word"

definition INT64_MAX :: int64 where
  "INT64_MAX = 9223372036854775807"

definition add_overflows :: "int64 \<Rightarrow> int64 \<Rightarrow> bool" where
  "add_overflows a b =
     (sint a + sint b < - 9223372036854775808 \<or> 9223372036854775807 < sint a + sint b)"

text \<open>
  \<^verbatim>\<open>memcpy(dst + off, src, n)\<close> on a destination region \<open>dst\<close> and a source region \<open>src\<close>:
  defined when the \<open>n\<close> bytes lie inside both.
\<close>

definition memcpy :: "byte list \<Rightarrow> nat \<Rightarrow> byte list \<Rightarrow> nat \<Rightarrow> byte list outcome" where
  "memcpy dst off src n =
     (if n \<le> length src \<and> off + n \<le> length dst
      then Returns (take off dst @ take n src @ drop (off + n) dst)
      else Undefined)"

subsection \<open>Data model\<close>

type_synonym ObjectID = nat

datatype SemaphoresCreationLevel = kUnitialized | kInitializing | kDone

text \<open>
  Modelled from the spec: the type declarations \<^verbatim>\<open>PlasmaObjectHeader\<close>,
  \<^verbatim>\<open>plasma::MutableObject\<close> and \<^verbatim>\<open>MutableObjectManager::Channel\<close> are in headers that are not
  among the sources. Their fields are the ones the two files read and write
  (\<^verbatim>\<open>unique_name\<close>, \<^verbatim>\<open>semaphores_created\<close>, \<^verbatim>\<open>data_size\<close>, \<^verbatim>\<open>metadata_size\<close>; \<^verbatim>\<open>buffer\<close>,
  \<^verbatim>\<open>header\<close>, \<^verbatim>\<open>allocated_size\<close>; \<^verbatim>\<open>mutable_object\<close>, \<^verbatim>\<open>reader_registered\<close>,
  \<^verbatim>\<open>writer_registered\<close>, \<^verbatim>\<open>written\<close>, \<^verbatim>\<open>next_version_to_read\<close>, \<^verbatim>\<open>lock\<close>) and, for the header,
  the remaining ones of the spec's data model. A new channel has both registration flags
  and \<^verbatim>\<open>written\<close> false, \<^verbatim>\<open>next_version_to_read = 1\<close> and a free mutex.

  The header and the buffer live in shared memory and are reached through pointers; each
  \<^verbatim>\<open>MutableObject\<close> is owned by one channel, so the model keeps them by value inside it.
  A channel of the map always has a non-null \<^verbatim>\<open>mutable_object\<close>, because
  \<^verbatim>\<open>RegisterChannel\<close> aborts otherwise; the field is therefore not optional.
\<close>

record PlasmaObjectHeader =
  unique_name :: string
  semaphores_created :: SemaphoresCreationLevel
  version :: int64
  num_readers :: int64
  num_read_acquires_remaining :: int64
  num_read_releases_remaining :: int64
  data_size :: uint64
  metadata_size :: uint64
  has_error :: bool

record MutableObject =
  buffer :: "byte list"
  header :: PlasmaObjectHeader
  allocated_size :: int64

record Channel =
  mutable_object :: MutableObject
  reader_registered :: bool
  writer_registered :: bool
  written :: bool
  next_version_to_read :: int64
  lock :: bool

definition Channel_new :: "MutableObject \<Rightarrow> Channel" where
  "Channel_new obj =
     \<lparr>mutable_object = obj, reader_registered = False, writer_registered = False,
      written = False, next_version_to_read = 1, lock = False\<rparr>"

text \<open>
  A \<^verbatim>\<open>sem_t *\<close> is modelled by the name of the semaphore it was opened on; the kernel's
  named semaphores are a table from names to values.
\<close>

type_synonym sem_table = "string \<rightharpoonup> nat"

record Semaphores =
  object_sem :: string
  header_sem :: string

text \<open>
  The state: the maps \<^verbatim>\<open>channels_\<close> and \<^verbatim>\<open>semaphores_\<close> of the manager (named without the
  trailing underscore), and the kernel's semaphore
  table.
\<close>

record State =
  channels :: "ObjectID \<rightharpoonup> Channel"
  semaphores :: "ObjectID \<rightharpoonup> Semaphores"
  sems :: sem_table

definition State_new :: State where
  "State_new = \<lparr>channels = Map.empty, semaphores = Map.empty, sems = Map.empty\<rparr>"

text \<open>
  \<^verbatim>\<open>SharedMemoryBuffer::Slice(buffer, offset, size)\<close> is a view of the channel's buffer: the
  model keeps the offset and the size, and \<open>slice_bytes\<close> reads the bytes the view covers.
\<close>

record Slice =
  slice_offset :: uint64
  slice_size :: uint64

definition slice_bytes :: "byte list \<Rightarrow> Slice \<Rightarrow> byte list" where
  "slice_bytes buf s = take (unat (slice_size s)) (drop (unat (slice_offset s)) buf)"

record RayObject =
  GetData :: Slice
  GetMetadata :: Slice

subsection \<open>The operations of the object header\<close>

text \<open>
  \<^verbatim>\<open>PlasmaObjectHeader::WriteAcquire\<close>, \<^verbatim>\<open>WriteRelease\<close>, \<^verbatim>\<open>ReadAcquire\<close>, \<^verbatim>\<open>ReadRelease\<close> and
  \<^verbatim>\<open>SetErrorUnlocked\<close> are defined in \<^verbatim>\<open>ray/object_manager/common.cc\<close>, which is not among the
  sources. The manager is therefore modelled over any implementation of them: a record of
  five functions on the header and the kernel's semaphores, each taking the semaphore
  pair the manager passes. \<^verbatim>\<open>ReadAcquire\<close> also returns the value it leaves in its
  out-parameter \<^verbatim>\<open>version_read\<close>.
\<close>

record header_ops =
  hdr_WriteAcquire ::
    "PlasmaObjectHeader \<Rightarrow> sem_table \<Rightarrow> Semaphores \<Rightarrow> int64 \<Rightarrow> int64 \<Rightarrow> int64
       \<Rightarrow> (StatusCode \<times> PlasmaObjectHeader \<times> sem_table) outcome"
  hdr_WriteRelease ::
    "PlasmaObjectHeader \<Rightarrow> sem_table \<Rightarrow> Semaphores
       \<Rightarrow> (StatusCode \<times> PlasmaObjectHeader \<times> sem_table) outcome"
  hdr_ReadAcquire ::
    "PlasmaObjectHeader \<Rightarrow> sem_table \<Rightarrow> Semaphores \<Rightarrow> int64
       \<Rightarrow> (StatusCode \<times> int64 \<times> PlasmaObjectHeader \<times> sem_table) outcome"
  hdr_ReadRelease ::
    "PlasmaObjectHeader \<Rightarrow> sem_table \<Rightarrow> Semaphores \<Rightarrow> int64
       \<Rightarrow> (StatusCode \<times> PlasmaObjectHeader \<times> sem_table) outcome"
  hdr_SetErrorUnlocked ::
    "PlasmaObjectHeader \<Rightarrow> sem_table \<Rightarrow> Semaphores
       \<Rightarrow> (PlasmaObjectHeader \<times> sem_table) outcome"

text \<open>Writing back what a header operation did to the header and the semaphores.\<close>

definition store_shared ::
    "State \<Rightarrow> ObjectID \<Rightarrow> Channel \<Rightarrow> PlasmaObjectHeader \<Rightarrow> sem_table \<Rightarrow> State" where
  "store_shared st object_id channel h k =
     st\<lparr>channels := (channels st)
           (object_id \<mapsto> channel\<lparr>mutable_object := (mutable_object channel)\<lparr>header := h\<rparr>\<rparr>),
        sems := k\<rparr>"

definition put_channel :: "State \<Rightarrow> ObjectID \<Rightarrow> Channel \<Rightarrow> State" where
  "put_channel st object_id channel =
     st\<lparr>channels := (channels st)(object_id \<mapsto> channel)\<rparr>"

subsection \<open>Named semaphores\<close>

text \<open>
  \<^verbatim>\<open>sem_unlink\<close> removes a name. \<^verbatim>\<open>sem_open\<close> with \<^verbatim>\<open>O_CREAT | O_EXCL\<close> and value 1 creates
  the semaphore unless the name exists; \<^verbatim>\<open>sem_open\<close> with \<^verbatim>\<open>oflag = 0\<close> opens an existing
  one. Both fail (\<^verbatim>\<open>SEM_FAILED\<close>, here \<open>None\<close>) on a name longer than the platform's
  maximum, which is the parameter \<open>P\<close> standing for the macro \<^verbatim>\<open>PSEMNAMLEN\<close>.
\<close>

definition sem_unlink :: "sem_table \<Rightarrow> string \<Rightarrow> sem_table" where
  "sem_unlink k name = k(name := None)"

definition sem_open_create :: "nat \<Rightarrow> sem_table \<Rightarrow> string \<Rightarrow> string option \<times> sem_table" where
  "sem_open_create P k name =
     (if P < length name \<or> name \<in> dom k then (None, k) else (Some name, k(name \<mapsto> 1)))"

definition sem_open_existing :: "nat \<Rightarrow> sem_table \<Rightarrow> string \<Rightarrow> string option" where
  "sem_open_existing P k name =
     (if length name \<le> P \<and> name \<in> dom k then Some name else None)"

subsection \<open>The channel manager\<close>

text \<open>
  \<^verbatim>\<open>
  std::string GetSemaphoreObjectName(const std::string &name) {
    std::string ret = absl::StrCat("obj", name);
    RAY_CHECK_LE(name.size(), PSEMNAMLEN);
    return ret;
  }
  \<close>
  and the same with \<^verbatim>\<open>"hdr"\<close>. The check is on the length of \<^verbatim>\<open>name\<close>, not of \<^verbatim>\<open>ret\<close>.
\<close>

definition GetSemaphoreObjectName :: "nat \<Rightarrow> string \<Rightarrow> string outcome" where
  "GetSemaphoreObjectName P name =
     (let ret = ''obj'' @ name in if length name \<le> P then Returns ret else Halts)"

definition GetSemaphoreHeaderName :: "nat \<Rightarrow> string \<Rightarrow> string outcome" where
  "GetSemaphoreHeaderName P name =
     (let ret = ''hdr'' @ name in if length name \<le> P then Returns ret else Halts)"

definition GetChannel :: "State \<Rightarrow> ObjectID \<Rightarrow> Channel option" where
  "GetChannel st object_id = channels st object_id"

definition GetSemaphoreName :: "nat \<Rightarrow> PlasmaObjectHeader \<Rightarrow> string outcome" where
  "GetSemaphoreName P h =
     (let name = unique_name h in if length name \<le> P then Returns name else Halts)"

definition GetSemaphores :: "State \<Rightarrow> ObjectID \<Rightarrow> Semaphores outcome" where
  "GetSemaphores st object_id =
     (case semaphores st object_id of None \<Rightarrow> Halts | Some s \<Rightarrow> Returns s)"

text \<open>
  The loop of \<^verbatim>\<open>OpenSemaphores\<close> that waits for another process to create the semaphores:
  \<^verbatim>\<open>while (header->semaphores_created.load(...) != kDone) { sched_yield(); }\<close>
  Nothing in the call changes the field between two iterations, so the loop is a recursion
  on the same header. It may run for ever: not returning is the value \<open>None\<close>.
\<close>

partial_function (option) wait_until_done :: "PlasmaObjectHeader \<Rightarrow> unit option" where
  "wait_until_done h =
     (if semaphores_created h \<noteq> kDone then wait_until_done h else Some ())"

text \<open>
  \<^verbatim>\<open>OpenSemaphores(object_id, header)\<close>. The header is passed by pointer; the model takes
  it by value and returns it updated. In the sequential model the compare-and-swap on
  \<^verbatim>\<open>semaphores_created\<close> succeeds whenever it is tried. The two name functions are pure and
  cannot fail once \<^verbatim>\<open>GetSemaphoreName\<close> has returned (they make the same check), so each is
  called once, where the source calls it twice.
\<close>

definition OpenSemaphores ::
    "nat \<Rightarrow> State \<Rightarrow> ObjectID \<Rightarrow> PlasmaObjectHeader \<Rightarrow> (State \<times> PlasmaObjectHeader) outcome" where
  "OpenSemaphores P st object_id h =
     (if object_id \<in> dom (semaphores st) then Returns (st, h)
      else
        let create = (semaphores_created h = kUnitialized);
            h1 = (if create then h\<lparr>semaphores_created := kInitializing\<rparr> else h)
        in
        obind (GetSemaphoreName P h1) (\<lambda>name.
        obind (GetSemaphoreHeaderName P name) (\<lambda>hdr_name.
        obind (GetSemaphoreObjectName P name) (\<lambda>obj_name.
          if create then
            let k1 = sem_unlink (sem_unlink (sems st) hdr_name) obj_name;
                (osem, k2) = sem_open_create P k1 obj_name;
                (hsem, k3) = sem_open_create P k2 hdr_name;
                h2 = h1\<lparr>semaphores_created := kDone\<rparr>
            in (case osem of None \<Rightarrow> Halts | Some object_sem' \<Rightarrow>
                (case hsem of None \<Rightarrow> Halts | Some header_sem' \<Rightarrow>
                  Returns (st\<lparr>semaphores := (semaphores st)
                               (object_id \<mapsto> \<lparr>object_sem = object_sem', header_sem = header_sem'\<rparr>),
                             sems := k3\<rparr>, h2)))
          else
            (case wait_until_done h1 of None \<Rightarrow> Blocks | Some u \<Rightarrow>
            (case sem_open_existing P (sems st) obj_name of None \<Rightarrow> Halts | Some object_sem' \<Rightarrow>
            (case sem_open_existing P (sems st) hdr_name of None \<Rightarrow> Halts | Some header_sem' \<Rightarrow>
               Returns (st\<lparr>semaphores := (semaphores st)
                            (object_id \<mapsto> \<lparr>object_sem = object_sem', header_sem = header_sem'\<rparr>)\<rparr>,
                        h1))))))))"

text \<open>
  \<^verbatim>\<open>RegisterChannel(object_id, mutable_object, reader)\<close>. \<^verbatim>\<open>channels_.emplace\<close> inserts a new
  channel only when the key is absent (\<open>success\<close>); otherwise \<open>channel\<close> is the one already
  there and the argument is dropped. \<^verbatim>\<open>RAY_CHECK(channel.mutable_object)\<close> fails exactly when
  a null pointer was just inserted.
\<close>

definition RegisterChannel ::
    "nat \<Rightarrow> State \<Rightarrow> ObjectID \<Rightarrow> MutableObject option \<Rightarrow> bool \<Rightarrow> (StatusCode \<times> State) outcome" where
  "RegisterChannel P st object_id mutable_object' reader =
     (let success = (channels st object_id = None) in
      case (if success then map_option Channel_new mutable_object' else channels st object_id) of
        None \<Rightarrow> Halts
      | Some channel \<Rightarrow>
          if \<not> success \<and>
             ((reader \<and> reader_registered channel) \<or> (\<not> reader \<and> writer_registered channel))
          then Returns (Invalid, st)
          else
            let channel1 = (if reader then channel\<lparr>reader_registered := True\<rparr>
                            else channel\<lparr>writer_registered := True\<rparr>)
            in
            obind (OpenSemaphores P (put_channel st object_id channel1) object_id
                     (header (mutable_object channel1))) (\<lambda>(st1, h1).
              Returns (OK, store_shared st1 object_id channel1 h1 (sems st1))))"

text \<open>
  \<^verbatim>\<open>WriteAcquire(object_id, data_size, metadata, metadata_size, num_readers, data)\<close>. The
  pointer \<^verbatim>\<open>metadata\<close> is \<open>None\<close> when null and otherwise the bytes readable from it. The
  result carries the out-parameter \<^verbatim>\<open>data\<close>, set only on success.
\<close>

definition WriteAcquire ::
    "header_ops \<Rightarrow> State \<Rightarrow> ObjectID \<Rightarrow> int64 \<Rightarrow> byte list option \<Rightarrow> int64 \<Rightarrow> int64
       \<Rightarrow> (StatusCode \<times> Slice option \<times> State) outcome" where
  "WriteAcquire H st object_id data_size' metadata metadata_size' num_readers' =
     (case GetChannel st object_id of
        None \<Rightarrow> Returns (ObjectNotFound, None, st)
      | Some channel \<Rightarrow>
          if \<not> writer_registered channel then Halts
          else if written channel then Halts
          else
            let object = mutable_object channel in
            if add_overflows data_size' metadata_size' then Undefined
            else
              let total_size = data_size' + metadata_size' in
              if sint (allocated_size object) < sint total_size
              then Returns (InvalidArgument, None, st)
              else
                obind (GetSemaphores st object_id) (\<lambda>sem.
                obind (hdr_WriteAcquire H (header object) (sems st) sem
                         data_size' metadata_size' num_readers') (\<lambda>(s, h1, k1).
                  let st1 = store_shared st object_id channel h1 k1 in
                  if s \<noteq> OK then Returns (s, None, st1)
                  else
                    let data = \<lparr>slice_offset = 0, slice_size = data_size'\<rparr> in
                    obind (case metadata of
                             None \<Rightarrow> Returns (buffer object)
                           | Some md \<Rightarrow>
                               if sint data_size' < 0 then Undefined
                               else memcpy (buffer object) (unat data_size') md
                                      (unat metadata_size')) (\<lambda>buf1.
                      Returns (OK, Some data,
                        put_channel st1 object_id
                          (channel\<lparr>mutable_object := object\<lparr>buffer := buf1, header := h1\<rparr>,
                                   written := True\<rparr>))))))"

text \<open>\<^verbatim>\<open>WriteRelease(object_id)\<close>.\<close>

definition WriteRelease :: "header_ops \<Rightarrow> State \<Rightarrow> ObjectID \<Rightarrow> (StatusCode \<times> State) outcome" where
  "WriteRelease H st object_id =
     (case GetChannel st object_id of
        None \<Rightarrow> Returns (ObjectNotFound, st)
      | Some channel \<Rightarrow>
          if \<not> writer_registered channel then Halts
          else if \<not> written channel then Halts
          else
            obind (GetSemaphores st object_id) (\<lambda>sem.
            obind (hdr_WriteRelease H (header (mutable_object channel)) (sems st) sem)
              (\<lambda>(s, h1, k1).
                let st1 = store_shared st object_id channel h1 k1 in
                if s \<noteq> OK then Returns (s, st1)
                else Returns (OK, put_channel st1 object_id
                       (channel\<lparr>mutable_object := (mutable_object channel)\<lparr>header := h1\<rparr>,
                                written := False\<rparr>)))))"

text \<open>
  \<^verbatim>\<open>ReadAcquire(object_id, result)\<close>. \<^verbatim>\<open>channel->lock->Lock()\<close> on the held, non-recursive
  \<^verbatim>\<open>absl::Mutex\<close> waits for its release. The early return of \<^verbatim>\<open>RAY_RETURN_NOT_OK\<close> leaves the
  function with the mutex held. The version read is stored in \<^verbatim>\<open>next_version_to_read\<close>.
\<close>

definition ReadAcquire ::
    "header_ops \<Rightarrow> State \<Rightarrow> ObjectID \<Rightarrow> (StatusCode \<times> RayObject option \<times> State) outcome" where
  "ReadAcquire H st object_id =
     (case GetChannel st object_id of
        None \<Rightarrow> Returns (ObjectNotFound, None, st)
      | Some channel \<Rightarrow>
          if \<not> reader_registered channel then Halts
          else if lock channel then Blocks
          else
            let channel1 = channel\<lparr>lock := True\<rparr>;
                st1 = put_channel st object_id channel1
            in
            obind (GetSemaphores st1 object_id) (\<lambda>sem.
            obind (hdr_ReadAcquire H (header (mutable_object channel1)) (sems st1) sem
                     (next_version_to_read channel1)) (\<lambda>(s, version_read, h1, k1).
              let st2 = store_shared st1 object_id channel1 h1 k1 in
              if s \<noteq> OK then Returns (s, None, st2)
              else if \<not> 0 < sint version_read then Halts
              else
                let object1 = (mutable_object channel1)\<lparr>header := h1\<rparr>;
                    channel2 = channel1\<lparr>mutable_object := object1,
                                        next_version_to_read := version_read\<rparr>;
                    total_size = data_size h1 + metadata_size h1
                in
                if \<not> sint total_size \<le> sint (allocated_size object1) then Halts
                else
                  Returns (OK,
                    Some \<lparr>GetData = \<lparr>slice_offset = 0, slice_size = data_size h1\<rparr>,
                          GetMetadata = \<lparr>slice_offset = data_size h1,
                                         slice_size = metadata_size h1\<rparr>\<rparr>,
                    put_channel st2 object_id channel2))))"

text \<open>
  \<^verbatim>\<open>ReadRelease(object_id)\<close>. \<^verbatim>\<open>channel->next_version_to_read++\<close> is a signed increment.
  \<^verbatim>\<open>channel->lock->Unlock()\<close> comes last. \<^verbatim>\<open>absl::Mutex::Unlock\<close> requires the caller to hold
  the mutex; the function makes no check of its own, so on a mutex that is not held the
  call breaks that precondition and is undefined. On a held mutex it leaves the mutex
  free.
\<close>

definition ReadRelease :: "header_ops \<Rightarrow> State \<Rightarrow> ObjectID \<Rightarrow> (StatusCode \<times> State) outcome" where
  "ReadRelease H st object_id =
     (case GetChannel st object_id of
        None \<Rightarrow> Returns (ObjectNotFound, st)
      | Some channel \<Rightarrow>
          if \<not> reader_registered channel then Halts
          else
            obind (GetSemaphores st object_id) (\<lambda>sem.
            obind (hdr_ReadRelease H (header (mutable_object channel)) (sems st) sem
                     (next_version_to_read channel)) (\<lambda>(s, h1, k1).
              let st1 = store_shared st object_id channel h1 k1 in
              if s \<noteq> OK then Returns (s, st1)
              else if add_overflows (next_version_to_read channel) 1 then Undefined
              else if \<not> lock channel then Undefined
              else
                Returns (OK, put_channel st1 object_id
                  (channel\<lparr>mutable_object := (mutable_object channel)\<lparr>header := h1\<rparr>,
                           next_version_to_read := next_version_to_read channel + 1,
                           lock := False\<rparr>)))))"

text \<open>
  \<^verbatim>\<open>SetError(object_id)\<close>. \<^verbatim>\<open>GetSemaphores\<close> is called, and checks that the entry exists,
  before the channel is tested.
\<close>

definition SetError :: "header_ops \<Rightarrow> State \<Rightarrow> ObjectID \<Rightarrow> (StatusCode \<times> State) outcome" where
  "SetError H st object_id =
     (let channel' = GetChannel st object_id in
      obind (GetSemaphores st object_id) (\<lambda>sem.
        case channel' of
          Some channel \<Rightarrow>
            obind (hdr_SetErrorUnlocked H (header (mutable_object channel)) (sems st) sem)
              (\<lambda>(h1, k1).
                Returns (OK, put_channel (st\<lparr>sems := k1\<rparr>) object_id
                  (channel\<lparr>mutable_object := (mutable_object channel)\<lparr>header := h1\<rparr>,
                           reader_registered := False,
                           writer_registered := False\<rparr>)))
        | None \<Rightarrow> Returns (ObjectNotFound, st)))"

subsection \<open>The provider\<close>

text \<open>
  The part of \<^verbatim>\<open>MutableObjectProvider\<close> that receives values from a remote writer:
  \<^verbatim>\<open>cross_node_map_\<close> and the embedded \<^verbatim>\<open>object_manager_\<close>. The allocator
  \<^verbatim>\<open>plasma_->GetExperimentalMutableObject(object_id, &object)\<close> is a parameter: the status
  it returns and the object it hands over.
\<close>

record LocalInfo =
  info_num_readers :: int64
  info_local_object_id :: ObjectID

record Provider =
  cross_node_map :: "ObjectID \<rightharpoonup> LocalInfo"
  object_manager :: State

record PushMutableObjectRequest =
  request_object_id :: ObjectID
  request_data_size :: uint64
  request_metadata_size :: uint64
  request_data :: "byte list"

definition RegisterReaderChannel ::
    "nat \<Rightarrow> (ObjectID \<Rightarrow> StatusCode \<times> MutableObject option) \<Rightarrow> Provider \<Rightarrow> ObjectID
       \<Rightarrow> Provider outcome" where
  "RegisterReaderChannel P plasma prov object_id =
     (case plasma object_id of (s, object) \<Rightarrow>
        if s \<noteq> OK then Halts
        else
          obind (RegisterChannel P (object_manager prov) object_id object True) (\<lambda>(s1, st1).
            if s1 \<noteq> OK then Halts else Returns (prov\<lparr>object_manager := st1\<rparr>)))"

definition HandleRegisterMutableObject ::
    "nat \<Rightarrow> (ObjectID \<Rightarrow> StatusCode \<times> MutableObject option) \<Rightarrow> Provider \<Rightarrow> ObjectID \<Rightarrow> int64
       \<Rightarrow> ObjectID \<Rightarrow> Provider outcome" where
  "HandleRegisterMutableObject P plasma prov object_id num_readers' local_object_id' =
     (let info = \<lparr>info_num_readers = num_readers', info_local_object_id = local_object_id'\<rparr>;
          success = (cross_node_map prov object_id = None)
      in
      if \<not> success then Halts
      else RegisterReaderChannel P plasma
             (prov\<lparr>cross_node_map := (cross_node_map prov)(object_id \<mapsto> info)\<rparr>)
             local_object_id')"

text \<open>
  \<^verbatim>\<open>HandlePushMutableObject(request, reply)\<close>. \<^verbatim>\<open>metadata_ptr\<close> points
  \<^verbatim>\<open>request.data_size()\<close> bytes into \<^verbatim>\<open>request.data()\<close>, whose readable bytes are taken to be
  the \<^verbatim>\<open>size()\<close> bytes of the string. The second \<^verbatim>\<open>memcpy\<close> writes \<^verbatim>\<open>total_size\<close> bytes of the
  request at the start of the slice \<^verbatim>\<open>data\<close>, that is into the buffer of the local channel.
  \<^verbatim>\<open>total_size\<close> is a \<^verbatim>\<open>size_t\<close> sum and wraps around.
\<close>

definition HandlePushMutableObject ::
    "header_ops \<Rightarrow> Provider \<Rightarrow> PushMutableObjectRequest \<Rightarrow> Provider outcome" where
  "HandlePushMutableObject H prov request =
     (case cross_node_map prov (request_object_id request) of
        None \<Rightarrow> Halts
      | Some info \<Rightarrow>
          let data_size' = request_data_size request;
              metadata_size' = request_metadata_size request;
              local = info_local_object_id info
          in
          if length (request_data request) < unat data_size' then Undefined
          else
            let metadata_ptr = Some (drop (unat data_size') (request_data request)) in
            obind (WriteAcquire H (object_manager prov) local data_size' metadata_ptr
                     metadata_size' (info_num_readers info)) (\<lambda>(s, data, st1).
              if s \<noteq> OK then Halts
              else
                case data of
                  None \<Rightarrow> Halts
                | Some d \<Rightarrow>
                    let total_size = data_size' + metadata_size' in
                    (case channels st1 local of
                       None \<Rightarrow> Undefined
                     | Some channel \<Rightarrow>
                         obind (memcpy (buffer (mutable_object channel)) (unat (slice_offset d))
                                  (request_data request) (unat total_size)) (\<lambda>buf1.
                         obind (WriteRelease H
                                  (put_channel st1 local
                                     (channel\<lparr>mutable_object :=
                                        (mutable_object channel)\<lparr>buffer := buf1\<rparr>\<rparr>))
                                  local) (\<lambda>(s2, st3).
                           if s2 \<noteq> OK then Halts
                           else Returns (prov\<lparr>object_manager := st3\<rparr>))))))"

subsection \<open>The header protocol of the spec\<close>

text \<open>
  Modelled from the spec: \<^verbatim>\<open>sem_wait\<close> and \<^verbatim>\<open>sem_post\<close> as the header operations use them,
  which are not among the sources. Waiting on a semaphore of value 0 blocks; an operation
  on a name that is not open is taken to fail its check.
\<close>

definition sem_wait :: "sem_table \<Rightarrow> string \<Rightarrow> sem_table outcome" where
  "sem_wait k name =
     (case k name of
        None \<Rightarrow> Halts
      | Some v \<Rightarrow> if v = 0 then Blocks else Returns (k(name \<mapsto> v - 1)))"

definition sem_post_n :: "sem_table \<Rightarrow> string \<Rightarrow> nat \<Rightarrow> sem_table outcome" where
  "sem_post_n k name n =
     (case k name of None \<Rightarrow> Halts | Some v \<Rightarrow> Returns (k(name \<mapsto> v + n)))"

text \<open>
  Modelled from the spec: header \<^verbatim>\<open>WriteAcquire(data_size, metadata_size, num_readers)\<close>,
  not among the sources. "Acquire \<^verbatim>\<open>object_sem\<close>, then acquire \<^verbatim>\<open>header_sem\<close>, write the new
  \<^verbatim>\<open>data_size\<close>, \<^verbatim>\<open>metadata_size\<close>, and \<^verbatim>\<open>num_readers\<close> into the header, set
  \<^verbatim>\<open>num_read_acquires_remaining = num_readers\<close> and \<^verbatim>\<open>num_read_releases_remaining =
  num_readers\<close>, then release \<^verbatim>\<open>header_sem\<close>. Do not touch \<^verbatim>\<open>version\<close> yet." "Once
  \<^verbatim>\<open>has_error\<close> is true, all subsequent acquire operations fail with \<^verbatim>\<open>ChannelError\<close>", which
  callers see as \<^verbatim>\<open>IOError\<close>.
\<close>

definition spec_WriteAcquire ::
    "PlasmaObjectHeader \<Rightarrow> sem_table \<Rightarrow> Semaphores \<Rightarrow> int64 \<Rightarrow> int64 \<Rightarrow> int64
       \<Rightarrow> (StatusCode \<times> PlasmaObjectHeader \<times> sem_table) outcome" where
  "spec_WriteAcquire h k sem ds ms nr =
     (if has_error h then Returns (IOError, h, k)
      else
        obind (sem_wait k (object_sem sem)) (\<lambda>k1.
        obind (sem_wait k1 (header_sem sem)) (\<lambda>k2.
        obind (sem_post_n k2 (header_sem sem) 1) (\<lambda>k3.
          Returns (OK,
            h\<lparr>data_size := ds, metadata_size := ms, num_readers := nr,
              num_read_acquires_remaining := nr, num_read_releases_remaining := nr\<rparr>,
            k3)))))"

text \<open>
  Modelled from the spec: header \<^verbatim>\<open>WriteRelease()\<close>, not among the sources. "Acquire
  \<^verbatim>\<open>header_sem\<close>, increment \<^verbatim>\<open>version\<close>, release \<^verbatim>\<open>header_sem\<close>, then release \<^verbatim>\<open>object_sem\<close>
  \<^verbatim>\<open>num_readers\<close> times." With \<^verbatim>\<open>has_error\<close> set, "releases are no-ops".
\<close>

definition spec_WriteRelease ::
    "PlasmaObjectHeader \<Rightarrow> sem_table \<Rightarrow> Semaphores
       \<Rightarrow> (StatusCode \<times> PlasmaObjectHeader \<times> sem_table) outcome" where
  "spec_WriteRelease h k sem =
     (if has_error h then Returns (OK, h, k)
      else
        obind (sem_wait k (header_sem sem)) (\<lambda>k1.
        obind (sem_post_n k1 (header_sem sem) 1) (\<lambda>k2.
        obind (sem_post_n k2 (object_sem sem) (nat (sint (num_readers h)))) (\<lambda>k3.
          Returns (OK, h\<lparr>version := version h + 1\<rparr>, k3)))))"

text \<open>
  Modelled from the spec: header \<^verbatim>\<open>ReadAcquire(requested_min_version, out_version_read)\<close>,
  not among the sources. "Wait (semaphore-wait on \<^verbatim>\<open>object_sem\<close>) until a version \<open>\<ge>\<close>
  \<^verbatim>\<open>requested_min_version\<close> is visible and \<^verbatim>\<open>num_read_acquires_remaining > 0\<close>. Under
  \<^verbatim>\<open>header_sem\<close>: if \<^verbatim>\<open>version < requested_min_version\<close> go back to waiting; else decrement
  \<^verbatim>\<open>num_read_acquires_remaining\<close> and set \<^verbatim>\<open>out_version_read = version\<close>. Readers observing
  \<^verbatim>\<open>has_error\<close> return \<^verbatim>\<open>ChannelError\<close>." Going back to waiting is, for a call alone,
  waiting for ever.
\<close>

definition spec_ReadAcquire ::
    "PlasmaObjectHeader \<Rightarrow> sem_table \<Rightarrow> Semaphores \<Rightarrow> int64
       \<Rightarrow> (StatusCode \<times> int64 \<times> PlasmaObjectHeader \<times> sem_table) outcome" where
  "spec_ReadAcquire h k sem requested_min_version =
     (if has_error h then Returns (IOError, 0, h, k)
      else
        obind (sem_wait k (object_sem sem)) (\<lambda>k1.
        obind (sem_wait k1 (header_sem sem)) (\<lambda>k2.
          if sint requested_min_version \<le> sint (version h)
             \<and> 0 < sint (num_read_acquires_remaining h)
          then
            obind (sem_post_n k2 (header_sem sem) 1) (\<lambda>k3.
              Returns (OK, version h,
                h\<lparr>num_read_acquires_remaining := num_read_acquires_remaining h - 1\<rparr>, k3))
          else Blocks)))"

text \<open>
  Modelled from the spec: header \<^verbatim>\<open>ReadRelease(version_just_read)\<close>, not among the sources.
  "Under \<^verbatim>\<open>header_sem\<close>, decrement \<^verbatim>\<open>num_read_releases_remaining\<close>. If it reaches 0, post
  \<^verbatim>\<open>object_sem\<close> once so that the next \<^verbatim>\<open>WriteAcquire\<close> can proceed." With \<^verbatim>\<open>has_error\<close>
  set, "releases are no-ops".
\<close>

definition spec_ReadRelease ::
    "PlasmaObjectHeader \<Rightarrow> sem_table \<Rightarrow> Semaphores \<Rightarrow> int64
       \<Rightarrow> (StatusCode \<times> PlasmaObjectHeader \<times> sem_table) outcome" where
  "spec_ReadRelease h k sem version_just_read =
     (if has_error h then Returns (OK, h, k)
      else
        obind (sem_wait k (header_sem sem)) (\<lambda>k1.
        obind (sem_post_n k1 (header_sem sem) 1) (\<lambda>k2.
          let h1 = h\<lparr>num_read_releases_remaining := num_read_releases_remaining h - 1\<rparr> in
          if num_read_releases_remaining h1 = 0
          then obind (sem_post_n k2 (object_sem sem) 1) (\<lambda>k3. Returns (OK, h1, k3))
          else Returns (OK, h1, k2))))"

text \<open>
  Modelled from the spec: header \<^verbatim>\<open>SetErrorUnlocked()\<close>, not among the sources. "Sets
  \<^verbatim>\<open>has_error = true\<close> under \<^verbatim>\<open>header_sem\<close>, then posts \<^verbatim>\<open>object_sem\<close> enough times to
  release any blocked peer. Idempotent." A call alone has no blocked peer, so no post is
  enough.
\<close>

definition spec_SetErrorUnlocked ::
    "PlasmaObjectHeader \<Rightarrow> sem_table \<Rightarrow> Semaphores \<Rightarrow> (PlasmaObjectHeader \<times> sem_table) outcome" where
  "spec_SetErrorUnlocked h k sem =
     obind (sem_wait k (header_sem sem)) (\<lambda>k1.
     obind (sem_post_n k1 (header_sem sem) 1) (\<lambda>k2.
       Returns (h\<lparr>has_error := True\<rparr>, k2)))"

definition spec_header_ops :: header_ops where
  "spec_header_ops =
     \<lparr>hdr_WriteAcquire = spec_WriteAcquire, hdr_WriteRelease = spec_WriteRelease,
      hdr_ReadAcquire = spec_ReadAcquire, hdr_ReadRelease = spec_ReadRelease,
      hdr_SetErrorUnlocked = spec_SetErrorUnlocked\<rparr>"


definition keeps_payload_sizes :: "header_ops \<Rightarrow> bool" where
  "keeps_payload_sizes H =
     ((\<forall>h k sem ds ms nr h1 k1.
         hdr_WriteAcquire H h k sem ds ms nr = Returns (OK, h1, k1)
           \<longrightarrow> data_size h1 = ds \<and> metadata_size h1 = ms)
      \<and> (\<forall>h k sem h1 k1.
         hdr_WriteRelease H h k sem = Returns (OK, h1, k1)
           \<longrightarrow> data_size h1 = data_size h \<and> metadata_size h1 = metadata_size h)
      \<and> (\<forall>h k sem req v h1 k1.
         hdr_ReadAcquire H h k sem req = Returns (OK, v, h1, k1)
           \<longrightarrow> data_size h1 = data_size h \<and> metadata_size h1 = metadata_size h))"

subsection \<open>Concrete objects and states\<close>

text \<open>
  An object as the allocator hands it out: a buffer of 64 zero bytes and a header that
  nobody has touched yet. \<open>example_P\<close> is a value of \<^verbatim>\<open>PSEMNAMLEN\<close>.
\<close>

definition example_P :: nat where
  "example_P = 31"

definition example_header :: PlasmaObjectHeader where
  "example_header =
     \<lparr>unique_name = ''ch1'', semaphores_created = kUnitialized, version = 0, num_readers = 0,
      num_read_acquires_remaining = 0, num_read_releases_remaining = 0,
      data_size = 0, metadata_size = 0, has_error = False\<rparr>"

definition example_object :: MutableObject where
  "example_object = \<lparr>buffer = replicate 64 0, header = example_header, allocated_size = 64\<rparr>"

text \<open>
  The state of a manager with the one channel \<open>c\<close>, registered under object id 1 on the
  header named \<open>ch1\<close>, both semaphores open, \<^verbatim>\<open>header_sem\<close> at 1 and \<^verbatim>\<open>object_sem\<close> at the
  given value.
\<close>

definition example_semaphores :: Semaphores where
  "example_semaphores = \<lparr>object_sem = ''objch1'', header_sem = ''hdrch1''\<rparr>"

definition example_state :: "Channel \<Rightarrow> nat \<Rightarrow> State" where
  "example_state c object_sem_value =
     \<lparr>channels = [1 \<mapsto> c], semaphores = [1 \<mapsto> example_semaphores],
      sems = [''objch1'' \<mapsto> object_sem_value, ''hdrch1'' \<mapsto> 1]\<rparr>"

definition set_header :: "Channel \<Rightarrow> PlasmaObjectHeader \<Rightarrow> Channel" where
  "set_header c h = c\<lparr>mutable_object := (mutable_object c)\<lparr>header := h\<rparr>\<rparr>"

text \<open>The example object once its semaphores have been created, and channels on it.\<close>

definition opened_object :: MutableObject where
  "opened_object = example_object\<lparr>header := example_header\<lparr>semaphores_created := kDone\<rparr>\<rparr>"

definition writer_channel :: Channel where
  "writer_channel = (Channel_new opened_object)\<lparr>writer_registered := True\<rparr>"

definition reader_channel :: Channel where
  "reader_channel = (Channel_new opened_object)\<lparr>reader_registered := True\<rparr>"

text \<open>The writer's channel after \<^verbatim>\<open>SetError\<close>: error flag set, no role registered.\<close>

definition error_channel :: Channel where
  "error_channel =
     set_header (Channel_new opened_object) ((header opened_object)\<lparr>has_error := True\<rparr>)"

text \<open>The writer's channel after \<^verbatim>\<open>WriteAcquire\<close> of 4 + 2 bytes for one reader.\<close>

definition written_channel :: Channel where
  "written_channel =
     (set_header writer_channel
        ((header opened_object)\<lparr>data_size := 4, metadata_size := 2, num_readers := 1,
           num_read_acquires_remaining := 1, num_read_releases_remaining := 1\<rparr>))
     \<lparr>written := True\<rparr>"

text \<open>
  An object whose header name is one character longer than \<open>example_P\<close>.
\<close>

definition long_name_object :: MutableObject where
  "long_name_object =
     example_object\<lparr>header := example_header\<lparr>unique_name := replicate 32 CHR ''a''\<rparr>\<rparr>"

text \<open>
  The reader's channel when the shared header carries the error flag: set by the
  \<^verbatim>\<open>SetError\<close> of a peer process, or by this process's own \<^verbatim>\<open>SetError\<close> followed by a new
  registration of the reader.
\<close>

definition peer_error_channel :: Channel where
  "peer_error_channel = error_channel\<lparr>reader_registered := True\<rparr>"

text \<open>
  The reader's channel on the header in error after a failed \<^verbatim>\<open>ReadAcquire\<close>, which left
  the mutex held, and after the \<^verbatim>\<open>ReadRelease\<close> that follows it.
\<close>

definition failed_read_channel :: Channel where
  "failed_read_channel = peer_error_channel\<lparr>lock := True\<rparr>"

definition released_channel :: Channel where
  "released_channel = peer_error_channel\<lparr>next_version_to_read := 2\<rparr>"


text \<open>
  A header on which a writer has published version \<open>v\<close> (4 data bytes, 2 metadata bytes,
  one reader), and the reader's channel on a header \<open>h\<close> with given
  \<^verbatim>\<open>next_version_to_read\<close> and mutex state.
\<close>

definition readable_header :: "int64 \<Rightarrow> PlasmaObjectHeader" where
  "readable_header v =
     (header opened_object)\<lparr>version := v, num_readers := 1, num_read_acquires_remaining := 1,
        num_read_releases_remaining := 1, data_size := 4, metadata_size := 2\<rparr>"

definition channel_at :: "PlasmaObjectHeader \<Rightarrow> int64 \<Rightarrow> bool \<Rightarrow> Channel" where
  "channel_at h nvr locked =
     (set_header reader_channel h)\<lparr>next_version_to_read := nvr, lock := locked\<rparr>"

definition example_read :: RayObject where
  "example_read =
     \<lparr>GetData = \<lparr>slice_offset = 0, slice_size = 4\<rparr>,
      GetMetadata = \<lparr>slice_offset = 4, slice_size = 2\<rparr>\<rparr>"

text \<open>
  The receiving side of a cross-node channel: the remote object 9 is mapped to the local
  object 1 with one reader, and the local channel has both roles registered. The request
  carries 3 data bytes and 1 metadata byte.
\<close>

definition both_channel :: Channel where
  "both_channel =
     (Channel_new opened_object)\<lparr>reader_registered := True, writer_registered := True\<rparr>"

definition example_provider :: "Channel \<Rightarrow> nat \<Rightarrow> Provider" where
  "example_provider c object_sem_value =
     \<lparr>cross_node_map = [9 \<mapsto> \<lparr>info_num_readers = 1, info_local_object_id = 1\<rparr>],
      object_manager = example_state c object_sem_value\<rparr>"

definition example_request :: PushMutableObjectRequest where
  "example_request =
     \<lparr>request_object_id = 9, request_data_size = 3, request_metadata_size = 1,
      request_data = [0xDE, 0xAD, 0xBE, 0xEF]\<rparr>"

definition pushed_header :: PlasmaObjectHeader where
  "pushed_header =
     (header opened_object)\<lparr>version := 1, num_readers := 1, num_read_acquires_remaining := 1,
        num_read_releases_remaining := 1, data_size := 3, metadata_size := 1\<rparr>"

definition pushed_object :: "PlasmaObjectHeader \<Rightarrow> MutableObject" where
  "pushed_object h =
     \<lparr>buffer = [0xDE, 0xAD, 0xBE, 0xEF] @ replicate 60 0, header = h, allocated_size = 64\<rparr>"

definition pushed_channel :: Channel where
  "pushed_channel = both_channel\<lparr>mutable_object := pushed_object pushed_header\<rparr>"

definition pushed_read_channel :: Channel where
  "pushed_read_channel =
     both_channel\<lparr>mutable_object :=
                     pushed_object (pushed_header\<lparr>num_read_acquires_remaining := 0\<rparr>),
                   lock := True\<rparr>"

definition pushed_read :: RayObject where
  "pushed_read =
     \<lparr>GetData = \<lparr>slice_offset = 0, slice_size = 3\<rparr>,
      GetMetadata = \<lparr>slice_offset = 3, slice_size = 1\<rparr>\<rparr>"

text \<open>
  The invariant that ties the two maps of the manager together: an object has a channel
  exactly when its semaphores are open.
\<close>

definition registry_consistent :: "State \<Rightarrow> bool" where
  "registry_consistent st = (dom (channels st) = dom (semaphores st))"

text \<open>An allocator that hands out the example object for every id.\<close>

definition example_plasma :: "ObjectID \<Rightarrow> StatusCode \<times> MutableObject option" where
  "example_plasma object_id = (OK, Some example_object)"

section \<open>Properties\<close>

subsection \<open>Auxiliary facts\<close>

lemmas example_defs =
  example_state_def example_semaphores_def opened_object_def writer_channel_def
  reader_channel_def example_object_def example_header_def example_P_def Channel_new_def
  State_new_def set_header_def error_channel_def peer_error_channel_def both_channel_def

lemmas example_read_defs =
  channel_at_def readable_header_def example_read_def example_provider_def
  example_request_def pushed_header_def pushed_object_def pushed_channel_def
  pushed_read_channel_def pushed_read_def

lemmas op_defs = GetChannel_def GetSemaphores_def put_channel_def store_shared_def

lemmas spec_defs =
  spec_header_ops_def spec_WriteAcquire_def spec_WriteRelease_def spec_ReadAcquire_def
  spec_ReadRelease_def spec_SetErrorUnlocked_def sem_wait_def sem_post_n_def

lemma obind_eq_Returns:
  "obind m f = Returns y \<longleftrightarrow> (\<exists>x. m = Returns x \<and> f x = Returns y)"
  by (cases m) simp_all

lemma sint_add_no_overflow:
  "\<not> add_overflows a b \<Longrightarrow> sint (a + b) = sint a + sint b"
  by (simp add: add_overflows_def sint_word_ariths signed_take_bit_int_eq_self)

text \<open>The waiting loop returns exactly on a header whose semaphores are created.\<close>

lemma wait_until_done_Some:
  assumes "wait_until_done h = Some u"
  shows "semaphores_created h = kDone"
proof (rule wait_until_done.raw_induct
    [where P = "\<lambda>h u. semaphores_created h = kDone", OF _ assms])
  fix f :: "PlasmaObjectHeader \<Rightarrow> unit option" and h u
  assume "\<And>x y. f x = Some y \<Longrightarrow> semaphores_created x = kDone"
    and "(if semaphores_created h \<noteq> kDone then f h else Some ()) = Some u"
  then show "semaphores_created h = kDone"
    by (cases "semaphores_created h = kDone") auto
qed

lemma wait_until_done_eq:
  "wait_until_done h = (if semaphores_created h = kDone then Some () else None)"
proof (cases "semaphores_created h = kDone")
  case True
  then show ?thesis by (subst wait_until_done.simps) simp
next
  case False
  with wait_until_done_Some [of h] show ?thesis
    by (cases "wait_until_done h") auto
qed

lemma example_sems_swap:
  "[''hdrch1'' \<mapsto> a, ''objch1'' \<mapsto> b] = [''objch1'' \<mapsto> b, ''hdrch1'' \<mapsto> (a::nat)]"
  by (rule ext) simp

subsection \<open>The header protocol of the spec keeps its promises\<close>


lemma spec_keeps_payload_sizes: "keeps_payload_sizes spec_header_ops"
  by (auto simp: keeps_payload_sizes_def spec_header_ops_def spec_ReadAcquire_def
      spec_WriteAcquire_def spec_WriteRelease_def obind_eq_Returns split: if_splits)


lemma keeps_payload_sizesD:
  assumes "keeps_payload_sizes H"
  shows "hdr_WriteAcquire H h k sem ds ms nr = Returns (OK, h1, k1)
           \<Longrightarrow> data_size h1 = ds \<and> metadata_size h1 = ms"
    and "hdr_WriteRelease H h k sem = Returns (OK, h1, k1)
           \<Longrightarrow> data_size h1 = data_size h \<and> metadata_size h1 = metadata_size h"
    and "hdr_ReadAcquire H h k sem req = Returns (OK, v, h1, k1)
           \<Longrightarrow> data_size h1 = data_size h \<and> metadata_size h1 = metadata_size h"
  using assms unfolding keeps_payload_sizes_def by blast+

subsection \<open>Evaluation on the concrete states\<close>

text \<open>Registering a role on a fresh manager creates both semaphores at value 1.\<close>

lemma RegisterChannel_writer_fresh:
  "RegisterChannel example_P State_new 1 (Some example_object) False
     = Returns (OK, example_state writer_channel 1)"
  by (simp add: RegisterChannel_def OpenSemaphores_def op_defs GetSemaphoreName_def
      GetSemaphoreHeaderName_def GetSemaphoreObjectName_def sem_unlink_def
      sem_open_create_def example_defs Let_def)

lemma RegisterChannel_reader_fresh:
  "RegisterChannel example_P State_new 1 (Some example_object) True
     = Returns (OK, example_state reader_channel 1)"
  by (simp add: RegisterChannel_def OpenSemaphores_def op_defs GetSemaphoreName_def
      GetSemaphoreHeaderName_def GetSemaphoreObjectName_def sem_unlink_def
      sem_open_create_def example_defs Let_def)

lemma SetError_writer_state:
  "SetError spec_header_ops (example_state writer_channel 1) 1
     = Returns (OK, example_state error_channel 1)"
  by (simp add: SetError_def op_defs spec_defs example_defs)

lemma SetError_reader_state:
  "SetError spec_header_ops (example_state reader_channel 1) 1
     = Returns (OK, example_state error_channel 1)"
  by (simp add: SetError_def op_defs spec_defs example_defs)

text \<open>After \<^verbatim>\<open>SetError\<close> the reader can be registered again, on the header in error.\<close>

lemma RegisterChannel_reader_again:
  "RegisterChannel example_P (example_state error_channel 1) 1 None True
     = Returns (OK, example_state peer_error_channel 1)"
  by (simp add: RegisterChannel_def OpenSemaphores_def op_defs example_defs)

lemma ReadAcquire_on_error_header:
  "ReadAcquire spec_header_ops (example_state peer_error_channel 1) 1
     = Returns (IOError, None, example_state failed_read_channel 1)"
  by (simp add: ReadAcquire_def op_defs spec_defs example_defs failed_read_channel_def)




lemma HandlePushMutableObject_example:
  "HandlePushMutableObject spec_header_ops (example_provider both_channel 1) example_request
     = Returns (example_provider pushed_channel 1)"
  by (simp add: HandlePushMutableObject_def WriteAcquire_def WriteRelease_def op_defs
      spec_defs example_defs example_read_defs add_overflows_def memcpy_def
      example_sems_swap)

lemma ReadAcquire_pushed:
  "ReadAcquire spec_header_ops (example_state pushed_channel 1) 1
     = Returns (OK, Some pushed_read, example_state pushed_read_channel 0)"
  by (simp add: ReadAcquire_def op_defs spec_defs example_defs example_read_defs)

text \<open>
  Scenario S2 of the spec: on a channel of 64 bytes, \<^verbatim>\<open>WriteAcquire(60, 8, 1)\<close> returns
  \<^verbatim>\<open>InvalidArgument\<close> and leaves the state as it was; \<^verbatim>\<open>WriteAcquire(4, 2, 1)\<close> then
  succeeds.
\<close>

lemma WriteAcquire_S2:
  "WriteAcquire spec_header_ops (example_state writer_channel 1) 1 60 None 8 1
     = Returns (InvalidArgument, None, example_state writer_channel 1)
   \<and> WriteAcquire spec_header_ops (example_state writer_channel 1) 1 4 None 2 1
     = Returns (OK, Some \<lparr>slice_offset = 0, slice_size = 4\<rparr>,
         example_state written_channel 0)"
  by (simp add: WriteAcquire_def op_defs example_defs add_overflows_def spec_defs
      written_channel_def)

text \<open>
  The receiving side as \<^verbatim>\<open>HandleRegisterMutableObject\<close> alone sets it up has only the reader
  registered on the local channel; \<^verbatim>\<open>HandlePushMutableObject\<close> then fails the writer check
  of \<^verbatim>\<open>WriteAcquire\<close>. A push returns only when the local channel also has its writer
  registered.
\<close>

lemma HandleRegisterMutableObject_example:
  "HandleRegisterMutableObject example_P example_plasma
     \<lparr>cross_node_map = Map.empty, object_manager = State_new\<rparr> 9 1 1
   = Returns (example_provider reader_channel 1)"
  using RegisterChannel_reader_fresh
  by (simp add: HandleRegisterMutableObject_def RegisterReaderChannel_def example_plasma_def
      example_provider_def)

lemma push_without_writer_role_halts:
  "HandlePushMutableObject spec_header_ops (example_provider reader_channel 1) example_request
     = Halts"
  by (simp add: HandlePushMutableObject_def WriteAcquire_def op_defs example_defs
      example_provider_def example_request_def)

subsection \<open>What a successful call has done\<close>

lemma ReadAcquire_registered:
  assumes "ReadAcquire H st object_id = Returns (OK, r, st')"
  obtains c sem where "channels st object_id = Some c" and "reader_registered c"
    and "\<not> lock c" and "semaphores st object_id = Some sem"
  using assms
  by (cases "channels st object_id"; cases "semaphores st object_id")
     (auto simp: ReadAcquire_def op_defs split: if_splits)

lemma ReadAcquire_OK_inv:
  assumes ok: "ReadAcquire H st object_id = Returns (OK, r, st')"
  shows "\<exists>c sem v h1 k1 c'.
           channels st object_id = Some c \<and> semaphores st object_id = Some sem
         \<and> hdr_ReadAcquire H (header (mutable_object c)) (sems st) sem (next_version_to_read c)
             = Returns (OK, v, h1, k1)
         \<and> 0 < sint v
         \<and> channels st' object_id = Some c'
         \<and> next_version_to_read c' = v
         \<and> header (mutable_object c') = h1
         \<and> buffer (mutable_object c') = buffer (mutable_object c)
         \<and> r = Some \<lparr>GetData = \<lparr>slice_offset = 0, slice_size = data_size h1\<rparr>,
                      GetMetadata = \<lparr>slice_offset = data_size h1,
                                     slice_size = metadata_size h1\<rparr>\<rparr>"
proof -
  from ok obtain c sem where c: "channels st object_id = Some c" "reader_registered c"
    "\<not> lock c" "semaphores st object_id = Some sem"
    by (rule ReadAcquire_registered)
  with ok show ?thesis
    by (cases "hdr_ReadAcquire H (header (mutable_object c)) (sems st) sem
                 (next_version_to_read c)")
       (auto simp: ReadAcquire_def op_defs Let_def split: if_splits)
qed



lemma WriteAcquire_registered:
  assumes "WriteAcquire H st object_id ds md ms nr = Returns (OK, d, st')"
  obtains c sem where "channels st object_id = Some c" and "writer_registered c"
    and "\<not> written c" and "\<not> add_overflows ds ms"
    and "sint (ds + ms) \<le> sint (allocated_size (mutable_object c))"
    and "semaphores st object_id = Some sem"
  using assms
  by (cases "channels st object_id"; cases "semaphores st object_id")
     (auto simp: WriteAcquire_def op_defs Let_def split: if_splits)

lemma WriteAcquire_OK_inv:
  assumes ok: "WriteAcquire H st object_id ds md ms nr = Returns (OK, d, st')"
  shows "\<exists>c sem h1 k1 c'.
           channels st object_id = Some c \<and> semaphores st object_id = Some sem
         \<and> hdr_WriteAcquire H (header (mutable_object c)) (sems st) sem ds ms nr
             = Returns (OK, h1, k1)
         \<and> d = Some \<lparr>slice_offset = 0, slice_size = ds\<rparr>
         \<and> channels st' object_id = Some c'
         \<and> header (mutable_object c') = h1
         \<and> written c'"
proof -
  from ok obtain c sem where c: "channels st object_id = Some c" "writer_registered c"
    "\<not> written c" "\<not> add_overflows ds ms"
    "sint (ds + ms) \<le> sint (allocated_size (mutable_object c))"
    "semaphores st object_id = Some sem"
    by (rule WriteAcquire_registered)
  with ok show ?thesis
    by (cases "hdr_WriteAcquire H (header (mutable_object c)) (sems st) sem ds ms nr")
       (auto simp: WriteAcquire_def op_defs Let_def obind_eq_Returns split: if_splits)
qed

lemma WriteRelease_registered:
  assumes "WriteRelease H st object_id = Returns (OK, st')"
  obtains c sem where "channels st object_id = Some c" and "writer_registered c"
    and "written c" and "semaphores st object_id = Some sem"
  using assms
  by (cases "channels st object_id"; cases "semaphores st object_id")
     (auto simp: WriteRelease_def op_defs split: if_splits)

lemma WriteRelease_OK_inv:
  assumes ok: "WriteRelease H st object_id = Returns (OK, st')"
  shows "\<exists>c sem h1 k1 c'.
           channels st object_id = Some c \<and> semaphores st object_id = Some sem
         \<and> hdr_WriteRelease H (header (mutable_object c)) (sems st) sem = Returns (OK, h1, k1)
         \<and> channels st' object_id = Some c'
         \<and> semaphores st' = semaphores st
         \<and> header (mutable_object c') = h1
         \<and> buffer (mutable_object c') = buffer (mutable_object c)
         \<and> \<not> written c'"
proof -
  from ok obtain c sem where c: "channels st object_id = Some c" "writer_registered c"
    "written c" "semaphores st object_id = Some sem"
    by (rule WriteRelease_registered)
  with ok show ?thesis
    by (cases "hdr_WriteRelease H (header (mutable_object c)) (sems st) sem")
       (auto simp: WriteRelease_def op_defs Let_def split: if_splits)
qed

lemma HandlePushMutableObject_inv:
  assumes ok: "HandlePushMutableObject H prov request = Returns prov'"
    and info: "cross_node_map prov (request_object_id request) = Some info"
  shows "\<exists>st1 d c1 buf2.
           unat (request_data_size request) \<le> length (request_data request)
         \<and> WriteAcquire H (object_manager prov) (info_local_object_id info)
               (request_data_size request)
               (Some (drop (unat (request_data_size request)) (request_data request)))
               (request_metadata_size request) (info_num_readers info)
             = Returns (OK, Some d, st1)
         \<and> channels st1 (info_local_object_id info) = Some c1
         \<and> memcpy (buffer (mutable_object c1)) (unat (slice_offset d)) (request_data request)
               (unat (request_data_size request + request_metadata_size request))
             = Returns buf2
         \<and> WriteRelease H
               (put_channel st1 (info_local_object_id info)
                  (c1\<lparr>mutable_object := (mutable_object c1)\<lparr>buffer := buf2\<rparr>\<rparr>))
               (info_local_object_id info)
             = Returns (OK, object_manager prov')"
  using ok info
  by (auto simp: HandlePushMutableObject_def Let_def obind_eq_Returns
      split: if_splits option.splits)

lemma memcpy_whole:
  assumes "memcpy dst 0 src n = Returns buf" and "n = length src"
  shows "buf = src @ drop n dst"
  using assms by (auto simp: memcpy_def split: if_splits)

subsection \<open>The two maps stay consistent\<close>

text \<open>
  \<open>registry_consistent\<close> holds of the new manager and is kept by every call that
  returns, whatever the header operations do: it holds in every state the operations
  can reach.
\<close>

lemma State_new_consistent: "registry_consistent State_new"
  by (simp add: registry_consistent_def State_new_def)

lemma OpenSemaphores_frame:
  assumes "OpenSemaphores P st object_id h = Returns (st', h')"
  shows "channels st' = channels st
       \<and> dom (semaphores st') = insert object_id (dom (semaphores st))"
  using assms
  by (auto simp: OpenSemaphores_def GetSemaphoreName_def GetSemaphoreHeaderName_def
      GetSemaphoreObjectName_def sem_open_create_def sem_open_existing_def sem_unlink_def
      wait_until_done_eq Let_def split: if_splits option.splits prod.splits)

lemma RegisterChannel_consistent:
  assumes inv: "registry_consistent st"
    and ok: "RegisterChannel P st object_id obj reader = Returns (s, st')"
  shows "registry_consistent st'"
proof -
  define success where "success = (channels st object_id = None)"
  obtain channel where ch:
    "(if success then map_option Channel_new obj else channels st object_id) = Some channel"
    using ok by (cases "if success then map_option Channel_new obj else channels st object_id")
      (simp_all add: RegisterChannel_def success_def)
  show ?thesis
  proof (cases "\<not> success \<and>
             ((reader \<and> reader_registered channel) \<or> (\<not> reader \<and> writer_registered channel))")
    case True
    with ok ch inv show ?thesis by (simp add: RegisterChannel_def success_def)
  next
    case False
    define channel1 where "channel1 = (if reader then channel\<lparr>reader_registered := True\<rparr>
                            else channel\<lparr>writer_registered := True\<rparr>)"
    define st0 where "st0 = put_channel st object_id channel1"
    from ok ch False obtain st1 h1 where
      op: "OpenSemaphores P st0 object_id (header (mutable_object channel1)) = Returns (st1, h1)"
      and st': "st' = store_shared st1 object_id channel1 h1 (sems st1)"
      by (cases "OpenSemaphores P st0 object_id (header (mutable_object channel1))")
         (auto simp: RegisterChannel_def success_def channel1_def st0_def Let_def
            split: if_splits)
    from OpenSemaphores_frame [OF op] st' inv show ?thesis
      by (auto simp: store_shared_def st0_def put_channel_def registry_consistent_def)
  qed
qed

lemma WriteAcquire_frame:
  assumes "WriteAcquire H st object_id ds md ms nr = Returns (s, d, st')"
  shows "dom (channels st') = dom (channels st) \<and> semaphores st' = semaphores st"
proof (cases "channels st object_id")
  case None
  with assms show ?thesis by (simp add: WriteAcquire_def GetChannel_def)
next
  case (Some c)
  show ?thesis
  proof (cases "semaphores st object_id")
    case None
    with assms Some show ?thesis
      by (auto simp: WriteAcquire_def op_defs Let_def split: if_splits)
  next
    case sem: (Some sem)
    with assms Some show ?thesis
      by (cases "hdr_WriteAcquire H (header (mutable_object c)) (sems st) sem ds ms nr")
         (auto simp: WriteAcquire_def op_defs Let_def obind_eq_Returns split: if_splits)
  qed
qed

lemma WriteRelease_frame:
  assumes "WriteRelease H st object_id = Returns (s, st')"
  shows "dom (channels st') = dom (channels st) \<and> semaphores st' = semaphores st"
proof (cases "channels st object_id")
  case None
  with assms show ?thesis by (simp add: WriteRelease_def GetChannel_def)
next
  case (Some c)
  show ?thesis
  proof (cases "semaphores st object_id")
    case None
    with assms Some show ?thesis
      by (auto simp: WriteRelease_def op_defs Let_def split: if_splits)
  next
    case sem: (Some sem)
    with assms Some show ?thesis
      by (cases "hdr_WriteRelease H (header (mutable_object c)) (sems st) sem")
         (auto simp: WriteRelease_def op_defs Let_def split: if_splits)
  qed
qed

lemma ReadAcquire_frame:
  assumes "ReadAcquire H st object_id = Returns (s, r, st')"
  shows "dom (channels st') = dom (channels st) \<and> semaphores st' = semaphores st"
proof (cases "channels st object_id")
  case None
  with assms show ?thesis by (simp add: ReadAcquire_def GetChannel_def)
next
  case (Some c)
  show ?thesis
  proof (cases "semaphores st object_id")
    case None
    with assms Some show ?thesis
      by (auto simp: ReadAcquire_def op_defs Let_def split: if_splits)
  next
    case sem: (Some sem)
    with assms Some show ?thesis
      by (cases "hdr_ReadAcquire H (header (mutable_object c)) (sems st) sem
                   (next_version_to_read c)")
         (auto simp: ReadAcquire_def op_defs Let_def split: if_splits)
  qed
qed

lemma ReadRelease_frame:
  assumes "ReadRelease H st object_id = Returns (s, st')"
  shows "dom (channels st') = dom (channels st) \<and> semaphores st' = semaphores st"
proof (cases "channels st object_id")
  case None
  with assms show ?thesis by (simp add: ReadRelease_def GetChannel_def)
next
  case (Some c)
  show ?thesis
  proof (cases "semaphores st object_id")
    case None
    with assms Some show ?thesis
      by (auto simp: ReadRelease_def op_defs Let_def split: if_splits)
  next
    case sem: (Some sem)
    with assms Some show ?thesis
      by (cases "hdr_ReadRelease H (header (mutable_object c)) (sems st) sem
                   (next_version_to_read c)")
         (auto simp: ReadRelease_def op_defs Let_def split: if_splits)
  qed
qed

lemma SetError_frame:
  assumes "SetError H st object_id = Returns (s, st')"
  shows "dom (channels st') = dom (channels st) \<and> semaphores st' = semaphores st"
proof (cases "semaphores st object_id")
  case None
  with assms show ?thesis by (simp add: SetError_def GetSemaphores_def)
next
  case sem: (Some sem)
  show ?thesis
  proof (cases "channels st object_id")
    case None
    with assms sem show ?thesis by (simp add: SetError_def op_defs)
  next
    case (Some c)
    with assms sem show ?thesis
      by (cases "hdr_SetErrorUnlocked H (header (mutable_object c)) (sems st) sem")
         (auto simp: SetError_def op_defs split: if_splits)
  qed
qed

lemma operations_keep_consistency:
  assumes "registry_consistent st"
  shows "WriteAcquire H st object_id ds md ms nr = Returns (s, d, st') \<Longrightarrow> registry_consistent st'"
    and "WriteRelease H st object_id = Returns (s, st') \<Longrightarrow> registry_consistent st'"
    and "ReadAcquire H st object_id = Returns (s, r, st') \<Longrightarrow> registry_consistent st'"
    and "ReadRelease H st object_id = Returns (s, st') \<Longrightarrow> registry_consistent st'"
    and "SetError H st object_id = Returns (s, st') \<Longrightarrow> registry_consistent st'"
  using assms WriteAcquire_frame [of H st object_id ds md ms nr s d st']
    WriteRelease_frame [of H st object_id s st'] ReadAcquire_frame [of H st object_id s r st']
    ReadRelease_frame [of H st object_id s st'] SetError_frame [of H st object_id s st']
  by (simp_all add: registry_consistent_def)

lemma consistent_semaphores:
  "registry_consistent st \<Longrightarrow> (semaphores st object_id = None) = (channels st object_id = None)"
  unfolding registry_consistent_def by (metis domIff)

section \<open>The claims\<close>

subsection \<open>Acquires after \<^verbatim>\<open>SetError\<close>\<close>

lemma acquire_unregistered_role:
  assumes "channels st object_id = Some c"
  shows "\<not> writer_registered c \<Longrightarrow> WriteAcquire H st object_id ds md ms nr = Halts"
    and "\<not> reader_registered c \<Longrightarrow> ReadAcquire H st object_id = Halts"
  using assms by (simp_all add: WriteAcquire_def ReadAcquire_def GetChannel_def)

lemma SetError_OK_clears_roles:
  assumes "SetError H st object_id = Returns (OK, st')"
  shows "\<exists>c. channels st' object_id = Some c \<and> \<not> reader_registered c \<and> \<not> writer_registered c"
proof (cases "semaphores st object_id")
  case None
  with assms show ?thesis by (simp add: SetError_def GetSemaphores_def)
next
  case sem: (Some sem)
  show ?thesis
  proof (cases "channels st object_id")
    case None
    with assms sem show ?thesis by (simp add: SetError_def op_defs)
  next
    case (Some c)
    with assms sem show ?thesis
      by (cases "hdr_SetErrorUnlocked H (header (mutable_object c)) (sems st) sem")
         (auto simp: SetError_def op_defs)
  qed
qed

text \<open>
  The header keeps the error: over the header protocol of the spec, \<^verbatim>\<open>SetError\<close> leaves
  \<^verbatim>\<open>has_error\<close> set, and on a header in error an acquire whose role is registered (again)
  returns \<^verbatim>\<open>IOError\<close>; \<^verbatim>\<open>WriteAcquire\<close> leaves the state as it was, \<^verbatim>\<open>ReadAcquire\<close> leaves the
  reader's mutex held.
\<close>

lemma SetError_sets_has_error:
  assumes "SetError spec_header_ops st object_id = Returns (OK, st')"
  shows "\<exists>c. channels st' object_id = Some c \<and> has_error (header (mutable_object c))"
proof (cases "semaphores st object_id")
  case None
  with assms show ?thesis by (simp add: SetError_def GetSemaphores_def)
next
  case sem: (Some sem)
  show ?thesis
  proof (cases "channels st object_id")
    case None
    with assms sem show ?thesis by (simp add: SetError_def op_defs)
  next
    case (Some c)
    with assms sem show ?thesis
      by (auto simp: SetError_def op_defs spec_header_ops_def spec_SetErrorUnlocked_def
          obind_eq_Returns)
  qed
qed

lemma store_shared_same:
  "channels st object_id = Some c \<Longrightarrow>
     store_shared st object_id c (header (mutable_object c)) (sems st) = st"
  by (simp add: store_shared_def fun_upd_idem)

lemma WriteAcquire_header_error:
  assumes "channels st object_id = Some c" and "writer_registered c" and "\<not> written c"
    and "\<not> add_overflows ds ms"
    and "sint ds + sint ms \<le> sint (allocated_size (mutable_object c))"
    and "semaphores st object_id = Some sem"
    and "has_error (header (mutable_object c))"
  shows "WriteAcquire spec_header_ops st object_id ds md ms nr = Returns (IOError, None, st)"
proof -
  have "sint (ds + ms) = sint ds + sint ms"
    using assms(4) by (rule sint_add_no_overflow)
  with assms show ?thesis
    by (simp add: WriteAcquire_def GetChannel_def GetSemaphores_def spec_header_ops_def
        spec_WriteAcquire_def store_shared_same)
qed

lemma ReadAcquire_header_error:
  assumes "channels st object_id = Some c" and "reader_registered c" and "\<not> lock c"
    and "semaphores st object_id = Some sem"
    and "has_error (header (mutable_object c))"
  shows "ReadAcquire spec_header_ops st object_id
           = Returns (IOError, None, put_channel st object_id (c\<lparr>lock := True\<rparr>))"
  using assms
  by (simp add: ReadAcquire_def GetChannel_def GetSemaphores_def spec_header_ops_def
      spec_ReadAcquire_def store_shared_def put_channel_def)

text \<open>
  C1 (as amended). Once \<^verbatim>\<open>SetError(object_id)\<close> has returned OK, both registration flags
  of the channel are cleared, so the next \<^verbatim>\<open>WriteAcquire\<close> or \<^verbatim>\<open>ReadAcquire\<close> on that channel,
  with any arguments and over any implementation of the header operations, fails its
  registration check and halts the process: it neither succeeds nor returns the channel
  error.
\<close>

theorem acquire_after_SetError_halts:
  assumes "SetError H st object_id = Returns (OK, st')"
  shows "WriteAcquire H st' object_id ds md ms nr = Halts
       \<and> ReadAcquire H st' object_id = Halts"
  using SetError_OK_clears_roles [OF assms] by (auto simp: acquire_unregistered_role)

text \<open>
  Witness for C1: the theorem at the writer's channel of the example, where \<^verbatim>\<open>SetError(1)\<close>
  returns OK.
\<close>

theorem acquire_after_SetError_halts_witness:
  "SetError spec_header_ops (example_state writer_channel 1) 1
     = Returns (OK, example_state error_channel 1)
   \<and> WriteAcquire spec_header_ops (example_state error_channel 1) 1 4 None 2 1 = Halts
   \<and> ReadAcquire spec_header_ops (example_state error_channel 1) 1 = Halts"
proof -
  note halts = acquire_after_SetError_halts [OF SetError_writer_state, of 4 None 2 1]
  from SetError_writer_state halts show ?thesis by (intro conjI) blast+
qed

text \<open>
  C1 as stated fails: on the writer's channel of the example, \<^verbatim>\<open>SetError(1)\<close> returns OK and
  the \<^verbatim>\<open>WriteAcquire\<close> that follows halts instead of returning \<^verbatim>\<open>IOError\<close>.
\<close>

theorem acquire_after_SetError_counterexample:
  "SetError spec_header_ops (example_state writer_channel 1) 1
     = Returns (OK, example_state error_channel 1)
   \<and> WriteAcquire spec_header_ops (example_state error_channel 1) 1 4 None 2 1 = Halts"
proof (rule conjI)
  show "SetError spec_header_ops (example_state writer_channel 1) 1
          = Returns (OK, example_state error_channel 1)"
    by (rule SetError_writer_state)
  show "WriteAcquire spec_header_ops (example_state error_channel 1) 1 4 None 2 1 = Halts"
    by (simp add: WriteAcquire_def op_defs example_defs)
qed

subsection \<open>A failed \<^verbatim>\<open>ReadAcquire\<close> and the reader's mutex\<close>

text \<open>
  Whenever the header's \<^verbatim>\<open>ReadAcquire\<close> returns a status other than OK, the manager's
  \<^verbatim>\<open>ReadAcquire\<close> returns that status with the mutex held, and the next \<^verbatim>\<open>ReadAcquire\<close> on the
  channel waits for the mutex.
\<close>

lemma ReadAcquire_error_keeps_lock:
  assumes "channels st object_id = Some c" and "reader_registered c" and "\<not> lock c"
    and "semaphores st object_id = Some sem"
    and "hdr_ReadAcquire H (header (mutable_object c)) (sems st) sem (next_version_to_read c)
           = Returns (s, v, h1, k1)"
    and "s \<noteq> OK"
    and "st' = store_shared (put_channel st object_id (c\<lparr>lock := True\<rparr>)) object_id
                 (c\<lparr>lock := True\<rparr>) h1 k1"
  shows "ReadAcquire H st object_id = Returns (s, None, st')"
    and "ReadAcquire H st' object_id = Blocks"
  using assms by (simp_all add: ReadAcquire_def op_defs)

text \<open>
  C2 fails on the code. On a registered reader's channel whose header carries the error
  flag, \<^verbatim>\<open>ReadAcquire(1)\<close> returns \<^verbatim>\<open>IOError\<close> and leaves the state with the reader's mutex
  held; a second \<^verbatim>\<open>ReadAcquire(1)\<close> on that state blocks on the mutex.
\<close>

theorem failed_ReadAcquire_keeps_lock:
  "ReadAcquire spec_header_ops (example_state peer_error_channel 1) 1
     = Returns (IOError, None, example_state (peer_error_channel\<lparr>lock := True\<rparr>) 1)
   \<and> ReadAcquire spec_header_ops (example_state (peer_error_channel\<lparr>lock := True\<rparr>) 1) 1
     = Blocks"
  by (simp add: ReadAcquire_def op_defs spec_defs example_defs)

subsection \<open>Over-size writes\<close>

text \<open>
  Where the signed sum of the two sizes does not overflow, an over-size \<^verbatim>\<open>WriteAcquire\<close>
  returns \<^verbatim>\<open>InvalidArgument\<close> and leaves the whole state (channel, header, semaphores) as
  it was, so that a later call behaves as if this one had not been made.
\<close>

lemma WriteAcquire_oversize:
  assumes "channels st object_id = Some c" and "writer_registered c" and "\<not> written c"
    and "\<not> add_overflows ds ms"
    and "sint (allocated_size (mutable_object c)) < sint ds + sint ms"
  shows "WriteAcquire H st object_id ds md ms nr = Returns (InvalidArgument, None, st)"
proof -
  have "sint (ds + ms) = sint ds + sint ms"
    using assms(4) by (rule sint_add_no_overflow)
  with assms show ?thesis by (simp add: WriteAcquire_def GetChannel_def)
qed

text \<open>
  C3 fails on the code. With \<^verbatim>\<open>data_size = INT64_MAX\<close> and \<^verbatim>\<open>metadata_size = 1\<close> the sum
  exceeds the 64 allocated bytes, but \<^verbatim>\<open>int64_t total_size = data_size + metadata_size\<close>
  overflows: the call has undefined behaviour instead of returning \<^verbatim>\<open>InvalidArgument\<close>.
\<close>

theorem WriteAcquire_size_overflow:
  "WriteAcquire spec_header_ops (example_state writer_channel 1) 1 INT64_MAX None 1 1
     = Undefined"
  by (simp add: WriteAcquire_def op_defs example_defs add_overflows_def INT64_MAX_def)

subsection \<open>Objects without a channel\<close>

lemma unregistered_returns_ObjectNotFound:
  assumes "channels st object_id = None"
  shows "WriteAcquire H st object_id ds md ms nr = Returns (ObjectNotFound, None, st)"
    and "WriteRelease H st object_id = Returns (ObjectNotFound, st)"
    and "ReadAcquire H st object_id = Returns (ObjectNotFound, None, st)"
    and "ReadRelease H st object_id = Returns (ObjectNotFound, st)"
  using assms
  by (simp_all add: WriteAcquire_def WriteRelease_def ReadAcquire_def ReadRelease_def
      GetChannel_def)

lemma SetError_without_semaphores:
  "semaphores st object_id = None \<Longrightarrow> SetError H st object_id = Halts"
  by (simp add: SetError_def GetSemaphores_def)

lemma SetError_unregistered:
  "registry_consistent st \<Longrightarrow> channels st object_id = None \<Longrightarrow> SetError H st object_id = Halts"
  by (simp add: SetError_without_semaphores consistent_semaphores)

text \<open>
  C4 fails on the code for \<^verbatim>\<open>SetError\<close>. On the new manager, where object 7 has no channel,
  \<^verbatim>\<open>SetError(7)\<close> halts in \<^verbatim>\<open>GetSemaphores\<close>, which runs before the channel is tested; the
  other four operations return \<^verbatim>\<open>ObjectNotFound\<close> and leave the state as it was.
\<close>

theorem SetError_unregistered_halts:
  "SetError spec_header_ops State_new 7 = Halts
   \<and> WriteAcquire spec_header_ops State_new 7 4 None 2 1
       = Returns (ObjectNotFound, None, State_new)
   \<and> WriteRelease spec_header_ops State_new 7 = Returns (ObjectNotFound, State_new)
   \<and> ReadAcquire spec_header_ops State_new 7 = Returns (ObjectNotFound, None, State_new)
   \<and> ReadRelease spec_header_ops State_new 7 = Returns (ObjectNotFound, State_new)"
  by (simp add: unregistered_returns_ObjectNotFound SetError_without_semaphores State_new_def)

subsection \<open>\<^verbatim>\<open>WriteRelease\<close> without \<^verbatim>\<open>WriteAcquire\<close>\<close>

text \<open>
  C5 (as amended). \<^verbatim>\<open>WriteRelease\<close> on a channel with a registered writer whose \<^verbatim>\<open>written\<close>
  flag is false fails \<^verbatim>\<open>RAY_CHECK(channel->written)\<close> and halts the process, over any
  implementation of the header operations.
\<close>

theorem WriteRelease_unwritten_halts:
  assumes "channels st object_id = Some c" and "writer_registered c" and "\<not> written c"
  shows "WriteRelease H st object_id = Halts"
  using assms by (simp add: WriteRelease_def GetChannel_def)

text \<open>Witness for C5: the theorem at the freshly registered writer's channel.\<close>

theorem WriteRelease_unwritten_halts_witness:
  "channels (example_state writer_channel 1) 1 = Some writer_channel
   \<and> writer_registered writer_channel \<and> \<not> written writer_channel
   \<and> WriteRelease spec_header_ops (example_state writer_channel 1) 1 = Halts"
proof -
  have a: "channels (example_state writer_channel 1) 1 = Some writer_channel"
    by (simp add: example_state_def)
  have b: "writer_registered writer_channel"
    by (simp add: writer_channel_def)
  have c: "\<not> written writer_channel"
    by (simp add: writer_channel_def Channel_new_def)
  from WriteRelease_unwritten_halts [OF a b c] a b c show ?thesis by blast
qed

text \<open>
  C5 as stated fails: on the freshly registered writer's channel, \<^verbatim>\<open>WriteRelease(1)\<close> does not
  return at all.
\<close>

theorem WriteRelease_unwritten_counterexample:
  "WriteRelease spec_header_ops (example_state writer_channel 1) 1 = Halts"
  by (simp add: WriteRelease_def op_defs example_defs)

subsection \<open>Versions read by one reader\<close>



subsection \<open>A pushed value is what the local reader gets\<close>

text \<open>
  C7. Let \<^verbatim>\<open>HandlePushMutableObject\<close> return on a request whose bytes are \<^verbatim>\<open>data_size\<close> bytes
  \<open>v\<close> followed by \<^verbatim>\<open>metadata_size\<close> bytes \<open>m\<close>, and let the \<^verbatim>\<open>ReadAcquire\<close> on the mapped
  local channel that follows succeed. Then the data slice it returns covers exactly \<open>v\<close>
  and the metadata slice exactly \<open>m\<close> in the channel's buffer, and their sizes are the
  request's. This holds over every implementation of the header operations that keeps
  the payload sizes in the header. (The request's bytes are a \<^verbatim>\<open>std::string\<close>, so fewer than
  \<open>2 ^ 64\<close>.)
\<close>

theorem push_then_read_roundtrip:
  assumes H: "keeps_payload_sizes H"
    and info: "cross_node_map prov (request_object_id request) = Some info"
    and payload: "request_data request = v @ m"
      "length v = unat (request_data_size request)"
      "length m = unat (request_metadata_size request)"
      "length (request_data request) < 2 ^ 64"
    and push: "HandlePushMutableObject H prov request = Returns prov'"
    and read: "ReadAcquire H (object_manager prov') (info_local_object_id info)
                 = Returns (OK, Some r, st')"
  shows "\<exists>c'. channels st' (info_local_object_id info) = Some c'
           \<and> slice_bytes (buffer (mutable_object c')) (GetData r) = v
           \<and> slice_bytes (buffer (mutable_object c')) (GetMetadata r) = m
           \<and> slice_size (GetData r) = request_data_size request
           \<and> slice_size (GetMetadata r) = request_metadata_size request"
proof -
  let ?ds = "request_data_size request" and ?ms = "request_metadata_size request"
  let ?local = "info_local_object_id info"
  from HandlePushMutableObject_inv [OF push info] obtain st1 d c1 buf2 where
    wa: "WriteAcquire H (object_manager prov) ?local ?ds
           (Some (drop (unat ?ds) (request_data request))) ?ms (info_num_readers info)
         = Returns (OK, Some d, st1)"
    and c1: "channels st1 ?local = Some c1"
    and cp: "memcpy (buffer (mutable_object c1)) (unat (slice_offset d)) (request_data request)
               (unat (?ds + ?ms)) = Returns buf2"
    and wr: "WriteRelease H
               (put_channel st1 ?local
                  (c1\<lparr>mutable_object := (mutable_object c1)\<lparr>buffer := buf2\<rparr>\<rparr>))
               ?local = Returns (OK, object_manager prov')"
    by blast
  from WriteAcquire_OK_inv [OF wa] obtain c :: Channel and sem h1 k1 c1' where
    hwa: "hdr_WriteAcquire H (header (mutable_object c)) (sems (object_manager prov)) sem
            ?ds ?ms (info_num_readers info) = Returns (OK, h1, k1)"
    and d': "Some d = Some \<lparr>slice_offset = 0, slice_size = ?ds\<rparr>"
    and c1': "channels st1 ?local = Some c1'" "header (mutable_object c1') = h1"
    by blast
  from c1 c1' d' have h1: "header (mutable_object c1) = h1"
    and d: "d = \<lparr>slice_offset = 0, slice_size = ?ds\<rparr>"
    by simp_all
  from keeps_payload_sizesD(1) [OF H hwa]
  have sz1: "data_size h1 = ?ds" "metadata_size h1 = ?ms" by simp_all
  have total: "unat (?ds + ?ms) = length (request_data request)"
  proof -
    from payload have "unat ?ds + unat ?ms < 2 ^ LENGTH(64)" by simp
    then have "unat (?ds + ?ms) = unat ?ds + unat ?ms" by (rule unat_add_lem [THEN iffD1])
    with payload show ?thesis by simp
  qed
  from cp d total
  have buf2: "buf2 = request_data request
                @ drop (length (request_data request)) (buffer (mutable_object c1))"
    by (intro memcpy_whole) simp_all
  let ?c1 = "c1\<lparr>mutable_object := (mutable_object c1)\<lparr>buffer := buf2\<rparr>\<rparr>"
  from WriteRelease_OK_inv [OF wr] obtain cw sem2 h2 k2 c2 where
    cw: "channels (put_channel st1 ?local ?c1) ?local = Some cw"
    and hwr': "hdr_WriteRelease H (header (mutable_object cw)) (sems (put_channel st1 ?local ?c1))
                 sem2 = Returns (OK, h2, k2)"
    and c2: "channels (object_manager prov') ?local = Some c2"
      "header (mutable_object c2) = h2"
    and b2: "buffer (mutable_object c2) = buffer (mutable_object cw)"
    by blast
  from cw have cw_eq: "cw = ?c1" by (simp add: put_channel_def)
  with b2 have c2_buf: "buffer (mutable_object c2) = buf2" by simp
  from hwr' cw_eq h1 have hwr: "hdr_WriteRelease H h1 (sems st1) sem2 = Returns (OK, h2, k2)"
    by (simp add: put_channel_def)
  from keeps_payload_sizesD(2) [OF H hwr] sz1
  have sz2: "data_size h2 = ?ds" "metadata_size h2 = ?ms" by simp_all
  from ReadAcquire_OK_inv [OF read] obtain cr sem3 v3 h3 k3 c3 where
    cr: "channels (object_manager prov') ?local = Some cr"
    and hra': "hdr_ReadAcquire H (header (mutable_object cr)) (sems (object_manager prov')) sem3
                 (next_version_to_read cr) = Returns (OK, v3, h3, k3)"
    and c3: "channels st' ?local = Some c3"
    and b3: "buffer (mutable_object c3) = buffer (mutable_object cr)"
    and r': "Some r = Some \<lparr>GetData = \<lparr>slice_offset = 0, slice_size = data_size h3\<rparr>,
                 GetMetadata = \<lparr>slice_offset = data_size h3,
                                slice_size = metadata_size h3\<rparr>\<rparr>"
    by blast
  from cr c2 have cr_eq: "cr = c2" by simp
  with hra' c2 have hra: "hdr_ReadAcquire H h2 (sems (object_manager prov')) sem3
                 (next_version_to_read c2) = Returns (OK, v3, h3, k3)"
    by simp
  from b3 cr_eq c2_buf have c3_buf: "buffer (mutable_object c3) = buf2" by simp
  from r' have r: "r = \<lparr>GetData = \<lparr>slice_offset = 0, slice_size = data_size h3\<rparr>,
                 GetMetadata = \<lparr>slice_offset = data_size h3,
                                slice_size = metadata_size h3\<rparr>\<rparr>"
    by simp
  from keeps_payload_sizesD(3) [OF H hra] sz2
  have sz3: "data_size h3 = ?ds" "metadata_size h3 = ?ms" by simp_all
  from buf2 payload
  have "take (unat ?ds) buf2 = v" "take (unat ?ms) (drop (unat ?ds) buf2) = m"
    by simp_all
  with c3 c3_buf r sz3 show ?thesis by (simp add: slice_bytes_def)
qed

text \<open>
  Witness for C7, on the request of scenario S5 of the spec and a local channel that has
  both roles registered: the request carries \<^verbatim>\<open>DE AD BE EF\<close> with \<^verbatim>\<open>data_size = 3\<close> and
  \<^verbatim>\<open>metadata_size = 1\<close>; the local reader gets \<^verbatim>\<open>DE AD BE\<close> and \<^verbatim>\<open>EF\<close>.
\<close>

theorem push_then_read_roundtrip_witness:
  "keeps_payload_sizes spec_header_ops
   \<and> cross_node_map (example_provider both_channel 1) (request_object_id example_request)
       = Some \<lparr>info_num_readers = 1, info_local_object_id = 1\<rparr>
   \<and> request_data example_request = [0xDE, 0xAD, 0xBE] @ [0xEF]
   \<and> HandlePushMutableObject spec_header_ops (example_provider both_channel 1) example_request
       = Returns (example_provider pushed_channel 1)
   \<and> ReadAcquire spec_header_ops (object_manager (example_provider pushed_channel 1)) 1
       = Returns (OK, Some pushed_read, example_state pushed_read_channel 0)
   \<and> (\<exists>c'. channels (example_state pushed_read_channel 0) 1 = Some c'
         \<and> slice_bytes (buffer (mutable_object c')) (GetData pushed_read) = [0xDE, 0xAD, 0xBE]
         \<and> slice_bytes (buffer (mutable_object c')) (GetMetadata pushed_read) = [0xEF]
         \<and> slice_size (GetData pushed_read) = 3
         \<and> slice_size (GetMetadata pushed_read) = 1)"
proof -
  let ?info = "\<lparr>info_num_readers = 1, info_local_object_id = 1\<rparr>"
  have info: "cross_node_map (example_provider both_channel 1)
                (request_object_id example_request) = Some ?info"
    by (simp add: example_provider_def example_request_def)
  have data: "request_data example_request = [0xDE, 0xAD, 0xBE] @ [0xEF]"
    by (simp add: example_request_def)
  have lv: "length [0xDE, 0xAD, 0xBE :: byte] = unat (request_data_size example_request)"
    by (simp add: example_request_def)
  have lm: "length [0xEF :: byte] = unat (request_metadata_size example_request)"
    by (simp add: example_request_def)
  have len: "length (request_data example_request) < 2 ^ 64"
    by (simp add: example_request_def)
  have read: "ReadAcquire spec_header_ops (object_manager (example_provider pushed_channel 1))
                (info_local_object_id ?info)
              = Returns (OK, Some pushed_read, example_state pushed_read_channel 0)"
    using ReadAcquire_pushed by (simp add: example_provider_def)
  note rt = push_then_read_roundtrip [OF spec_keeps_payload_sizes info data lv lm len
      HandlePushMutableObject_example read]
  from rt have rt': "\<exists>c'. channels (example_state pushed_read_channel 0) 1 = Some c'
         \<and> slice_bytes (buffer (mutable_object c')) (GetData pushed_read) = [0xDE, 0xAD, 0xBE]
         \<and> slice_bytes (buffer (mutable_object c')) (GetMetadata pushed_read) = [0xEF]
         \<and> slice_size (GetData pushed_read) = 3
         \<and> slice_size (GetMetadata pushed_read) = 1"
    by (simp add: example_request_def)
  from read have read': "ReadAcquire spec_header_ops
        (object_manager (example_provider pushed_channel 1)) 1
      = Returns (OK, Some pushed_read, example_state pushed_read_channel 0)"
    by simp
  from spec_keeps_payload_sizes info data HandlePushMutableObject_example read' rt'
  show ?thesis by (intro conjI)
qed

subsection \<open>Registering a role twice\<close>

text \<open>
  C8. On an object that has a channel, in a state where the two maps are consistent:
  registering a role that is already registered returns \<^verbatim>\<open>Invalid\<close> and leaves the state
  as it was; registering a role that is not yet registered returns OK and changes
  nothing but that role's flag of the channel. The object passed with the second
  registration is dropped.
\<close>

theorem RegisterChannel_twice:
  assumes "registry_consistent st" and "channels st object_id = Some c"
  shows "(reader_registered c \<longrightarrow>
            RegisterChannel P st object_id obj True = Returns (Invalid, st))
       \<and> (writer_registered c \<longrightarrow>
            RegisterChannel P st object_id obj False = Returns (Invalid, st))
       \<and> (\<not> reader_registered c \<longrightarrow>
            RegisterChannel P st object_id obj True
              = Returns (OK, st\<lparr>channels :=
                                  (channels st)(object_id \<mapsto> c\<lparr>reader_registered := True\<rparr>)\<rparr>))
       \<and> (\<not> writer_registered c \<longrightarrow>
            RegisterChannel P st object_id obj False
              = Returns (OK, st\<lparr>channels :=
                                  (channels st)(object_id \<mapsto> c\<lparr>writer_registered := True\<rparr>)\<rparr>))"
proof -
  from assms have "object_id \<in> dom (semaphores st)"
    by (auto simp: registry_consistent_def)
  with assms(2) show ?thesis
    by (simp add: RegisterChannel_def OpenSemaphores_def put_channel_def store_shared_def)
qed

text \<open>
  Witness for C8: on the reader's channel of the example, a second reader is refused and
  a writer is accepted.
\<close>

theorem RegisterChannel_twice_witness:
  "registry_consistent (example_state reader_channel 1)
   \<and> channels (example_state reader_channel 1) 1 = Some reader_channel
   \<and> reader_registered reader_channel \<and> \<not> writer_registered reader_channel
   \<and> RegisterChannel example_P (example_state reader_channel 1) 1 (Some example_object) True
       = Returns (Invalid, example_state reader_channel 1)
   \<and> RegisterChannel example_P (example_state reader_channel 1) 1 (Some example_object) False
       = Returns (OK, example_state both_channel 1)"
proof -
  have a: "registry_consistent (example_state reader_channel 1)"
    by (simp add: registry_consistent_def example_state_def)
  have b: "channels (example_state reader_channel 1) 1 = Some reader_channel"
    by (simp add: example_state_def)
  have c: "reader_registered reader_channel" "\<not> writer_registered reader_channel"
    by (simp_all add: reader_channel_def Channel_new_def)
  have d: "(example_state reader_channel 1)
             \<lparr>channels := (channels (example_state reader_channel 1))
                (1 \<mapsto> reader_channel\<lparr>writer_registered := True\<rparr>)\<rparr>
           = example_state both_channel 1"
    by (simp add: example_defs)
  note tw = RegisterChannel_twice [OF a b, of example_P "Some example_object"]
  from tw c d have
    "RegisterChannel example_P (example_state reader_channel 1) 1 (Some example_object) True
       = Returns (Invalid, example_state reader_channel 1)"
    "RegisterChannel example_P (example_state reader_channel 1) 1 (Some example_object) False
       = Returns (OK, example_state both_channel 1)"
    by simp_all
  with a b c show ?thesis by (intro conjI)
qed

subsection \<open>Semaphore names\<close>

lemma OpenSemaphores_names:
  assumes "semaphores st object_id = None"
    and "OpenSemaphores P st object_id h = Returns (st', h')"
  shows "semaphores st' object_id
           = Some \<lparr>object_sem = ''obj'' @ unique_name h, header_sem = ''hdr'' @ unique_name h\<rparr>
       \<and> unique_name h' = unique_name h \<and> channels st' = channels st"
  using assms
  by (auto simp: OpenSemaphores_def GetSemaphoreName_def GetSemaphoreHeaderName_def
      GetSemaphoreObjectName_def sem_open_create_def sem_open_existing_def sem_unlink_def
      wait_until_done_eq Let_def domIff split: if_splits option.splits prod.splits)

text \<open>
  While another process is creating the semaphores, \<^verbatim>\<open>OpenSemaphores\<close> waits in its loop.
\<close>

lemma OpenSemaphores_waits:
  assumes "semaphores st object_id = None" and "semaphores_created h = kInitializing"
    and "length (unique_name h) \<le> P"
  shows "OpenSemaphores P st object_id h = Blocks"
  using assms
  by (simp add: OpenSemaphores_def GetSemaphoreName_def GetSemaphoreHeaderName_def
      GetSemaphoreObjectName_def wait_until_done_eq Let_def domIff)

lemma OpenSemaphores_long_name:
  assumes "semaphores st object_id = None" and "P < length (unique_name h)"
  shows "OpenSemaphores P st object_id h = Halts"
  using assms by (simp add: OpenSemaphores_def GetSemaphoreName_def Let_def domIff)

lemma RegisterChannel_OK_names:
  assumes sem: "semaphores st object_id = None"
    and ok: "RegisterChannel P st object_id obj reader = Returns (OK, st')"
  shows "\<exists>c. channels st' object_id = Some c
           \<and> semaphores st' object_id
               = Some \<lparr>object_sem = ''obj'' @ unique_name (header (mutable_object c)),
                       header_sem = ''hdr'' @ unique_name (header (mutable_object c))\<rparr>"
proof -
  define success where "success = (channels st object_id = None)"
  obtain channel where ch:
    "(if success then map_option Channel_new obj else channels st object_id) = Some channel"
    using ok by (cases "if success then map_option Channel_new obj else channels st object_id")
      (simp_all add: RegisterChannel_def success_def)
  define channel1 where "channel1 = (if reader then channel\<lparr>reader_registered := True\<rparr>
                            else channel\<lparr>writer_registered := True\<rparr>)"
  define st0 where "st0 = put_channel st object_id channel1"
  have sem0: "semaphores st0 object_id = None"
    using sem by (simp add: st0_def put_channel_def)
  from ok ch obtain st1 h1 where
    op: "OpenSemaphores P st0 object_id (header (mutable_object channel1)) = Returns (st1, h1)"
    and st': "st' = store_shared st1 object_id channel1 h1 (sems st1)"
    by (cases "OpenSemaphores P st0 object_id (header (mutable_object channel1))")
       (auto simp: RegisterChannel_def success_def channel1_def st0_def Let_def
          split: if_splits)
  from OpenSemaphores_names [OF sem0 op] st' show ?thesis
    by (simp add: store_shared_def)
qed

lemma RegisterChannel_long_name:
  assumes "channels st object_id = None" and "semaphores st object_id = None"
    and "P < length (unique_name (header object))"
  shows "RegisterChannel P st object_id (Some object) reader = Halts"
proof -
  have "OpenSemaphores P (put_channel st object_id c) object_id (header object) = Halts" for c
    using assms by (intro OpenSemaphores_long_name) (simp_all add: put_channel_def)
  with assms(1) show ?thesis
    by (simp add: RegisterChannel_def Channel_new_def Let_def)
qed

text \<open>
  The checks look at the length of the name without its prefix. A name that passes them
  but is too long once prefixed reaches \<^verbatim>\<open>sem_open\<close>; where \<^verbatim>\<open>sem_open\<close> refuses names longer
  than \<open>P\<close>, registering a fresh object then halts on \<^verbatim>\<open>RAY_CHECK_NE(..., SEM_FAILED)\<close>.
\<close>

lemma RegisterChannel_prefixed_name_too_long:
  assumes "channels st object_id = None" and "semaphores st object_id = None"
    and "semaphores_created (header object) = kUnitialized"
    and "P < length (unique_name (header object)) + 3"
  shows "RegisterChannel P st object_id (Some object) reader = Halts"
proof -
  have "OpenSemaphores P (put_channel st object_id c) object_id (header object) = Halts" for c
    using assms
    by (simp add: OpenSemaphores_def GetSemaphoreName_def GetSemaphoreHeaderName_def
        GetSemaphoreObjectName_def sem_open_create_def put_channel_def Let_def domIff)
  with assms(1) show ?thesis
    by (simp add: RegisterChannel_def Channel_new_def Let_def)
qed

text \<open>
  C9 (as amended). When \<^verbatim>\<open>RegisterChannel\<close> opens the semaphores of an object (they are
  not yet in \<^verbatim>\<open>semaphores_\<close>) and returns OK, the pair it stores is named \<^verbatim>\<open>"obj"\<close> and
  \<^verbatim>\<open>"hdr"\<close> followed by the \<^verbatim>\<open>unique_name\<close> of the channel's header. Registering a new object
  whose \<^verbatim>\<open>unique_name\<close> is longer than \<^verbatim>\<open>PSEMNAMLEN\<close> is not rejected with a status: it fails
  \<^verbatim>\<open>RAY_CHECK_LE(name.size(), PSEMNAMLEN)\<close> and halts the process.
\<close>

theorem semaphore_names:
  assumes "semaphores st object_id = None"
  shows "(RegisterChannel P st object_id obj reader = Returns (OK, st') \<longrightarrow>
            (\<exists>c. channels st' object_id = Some c
               \<and> semaphores st' object_id
                   = Some \<lparr>object_sem = ''obj'' @ unique_name (header (mutable_object c)),
                           header_sem = ''hdr'' @ unique_name (header (mutable_object c))\<rparr>))
       \<and> (channels st object_id = None \<and> P < length (unique_name (header object)) \<longrightarrow>
            RegisterChannel P st object_id (Some object) reader = Halts)"
  using assms RegisterChannel_OK_names RegisterChannel_long_name by blast

text \<open>
  Witness for C9: on the new manager, registering the example object opens \<^verbatim>\<open>objch1\<close> and
  \<^verbatim>\<open>hdrch1\<close> for the header named \<^verbatim>\<open>ch1\<close>; registering the object with the name of 32
  characters halts (\<^verbatim>\<open>PSEMNAMLEN\<close> is 31 here).
\<close>

theorem semaphore_names_witness:
  "semaphores State_new 1 = None
   \<and> RegisterChannel example_P State_new 1 (Some example_object) True
       = Returns (OK, example_state reader_channel 1)
   \<and> channels (example_state reader_channel 1) 1 = Some reader_channel
   \<and> unique_name (header (mutable_object reader_channel)) = ''ch1''
   \<and> semaphores (example_state reader_channel 1) 1
       = Some \<lparr>object_sem = ''objch1'', header_sem = ''hdrch1''\<rparr>
   \<and> channels State_new 1 = None
   \<and> example_P < length (unique_name (header long_name_object))
   \<and> RegisterChannel example_P State_new 1 (Some long_name_object) True = Halts"
proof -
  have a: "semaphores State_new 1 = None" by (simp add: State_new_def)
  have b: "channels State_new 1 = None" by (simp add: State_new_def)
  have c: "example_P < length (unique_name (header long_name_object))"
    by (simp add: long_name_object_def example_P_def)
  have d: "channels (example_state reader_channel 1) 1 = Some reader_channel"
    by (simp add: example_state_def)
  have e: "unique_name (header (mutable_object reader_channel)) = ''ch1''"
    by (simp add: example_defs)
  note names = semaphore_names [OF a, of example_P "Some example_object" True
      "example_state reader_channel 1" long_name_object]
  from names RegisterChannel_reader_fresh d e
  have f: "semaphores (example_state reader_channel 1) 1
       = Some \<lparr>object_sem = ''objch1'', header_sem = ''hdrch1''\<rparr>"
    by simp
  from names b c
  have g: "RegisterChannel example_P State_new 1 (Some long_name_object) True = Halts"
    by blast
  from a RegisterChannel_reader_fresh d e f b c g show ?thesis by (intro conjI)
qed

text \<open>
  C9 as stated fails: registering an object whose \<^verbatim>\<open>unique_name\<close> has 32 characters, with
  \<^verbatim>\<open>PSEMNAMLEN = 31\<close>, halts the process instead of returning a status that rejects the
  registration.
\<close>

theorem semaphore_names_counterexample:
  "RegisterChannel example_P State_new 1 (Some long_name_object) True = Halts"
  by (simp add: RegisterChannel_def OpenSemaphores_def op_defs GetSemaphoreName_def
      long_name_object_def example_defs Let_def)

subsection \<open>\<^verbatim>\<open>ReadRelease\<close> without \<^verbatim>\<open>ReadAcquire\<close>\<close>

text \<open>
  C10 (as amended). On a channel with a registered reader whose mutex is held,
  \<^verbatim>\<open>ReadRelease\<close> is not rejected when no successful \<^verbatim>\<open>ReadAcquire\<close> is outstanding (nothing
  is assumed about how the mutex came to be held, nor about the version): it calls the
  header's \<^verbatim>\<open>ReadRelease\<close> with the current \<^verbatim>\<open>next_version_to_read\<close> and, when that returns
  OK, increments \<^verbatim>\<open>next_version_to_read\<close>, releases the mutex and returns OK. The increment
  is that of a value below the largest \<^verbatim>\<open>int64_t\<close>.
\<close>

theorem ReadRelease_unpaired:
  assumes "channels st object_id = Some c" and "reader_registered c"
    and "semaphores st object_id = Some sem"
    and "hdr_ReadRelease H (header (mutable_object c)) (sems st) sem (next_version_to_read c)
           = Returns (OK, h1, k1)"
    and "\<not> add_overflows (next_version_to_read c) 1"
    and "lock c"
  shows "ReadRelease H st object_id
           = Returns (OK,
               st\<lparr>channels := (channels st)
                     (object_id \<mapsto> c\<lparr>mutable_object := (mutable_object c)\<lparr>header := h1\<rparr>,
                                      next_version_to_read := next_version_to_read c + 1,
                                      lock := False\<rparr>),
                  sems := k1\<rparr>)"
  using assms by (simp add: ReadRelease_def op_defs)

text \<open>
  Witness for C10: on the header in error, \<^verbatim>\<open>ReadAcquire(1)\<close> has failed and left the mutex
  held (\<open>ReadAcquire_on_error_header\<close>); no successful \<^verbatim>\<open>ReadAcquire\<close> was ever made on the
  channel. \<^verbatim>\<open>ReadRelease(1)\<close> returns OK, moves \<^verbatim>\<open>next_version_to_read\<close> from 1 to 2 and
  frees the mutex.
\<close>

theorem ReadRelease_unpaired_witness:
  "channels (example_state failed_read_channel 1) 1 = Some failed_read_channel
   \<and> reader_registered failed_read_channel \<and> lock failed_read_channel
   \<and> next_version_to_read failed_read_channel = 1
   \<and> ReadRelease spec_header_ops (example_state failed_read_channel 1) 1
       = Returns (OK, example_state released_channel 1)
   \<and> next_version_to_read released_channel = 2 \<and> \<not> lock released_channel"
proof -
  let ?c = failed_read_channel
  have a: "channels (example_state ?c 1) 1 = Some ?c"
    by (simp add: example_state_def)
  have b: "reader_registered ?c" "lock ?c" "next_version_to_read ?c = 1"
    by (simp_all add: failed_read_channel_def example_defs)
  have c: "semaphores (example_state ?c 1) 1 = Some example_semaphores"
    by (simp add: example_state_def)
  have d: "hdr_ReadRelease spec_header_ops (header (mutable_object ?c))
             (sems (example_state ?c 1)) example_semaphores (next_version_to_read ?c)
           = Returns (OK, header (mutable_object ?c), sems (example_state ?c 1))"
    by (simp add: spec_defs example_defs failed_read_channel_def)
  have e: "\<not> add_overflows (next_version_to_read ?c) 1"
    by (simp add: add_overflows_def failed_read_channel_def example_defs)
  have f: "(example_state ?c 1)
             \<lparr>channels := (channels (example_state ?c 1))
                (1 \<mapsto> ?c\<lparr>mutable_object :=
                             (mutable_object ?c)\<lparr>header := header (mutable_object ?c)\<rparr>,
                          next_version_to_read := next_version_to_read ?c + 1,
                          lock := False\<rparr>),
              sems := sems (example_state ?c 1)\<rparr>
           = example_state released_channel 1"
    by (simp add: example_defs failed_read_channel_def released_channel_def)
  from ReadRelease_unpaired [OF a b(1) c d e b(2)] f
  have g: "ReadRelease spec_header_ops (example_state ?c 1) 1
       = Returns (OK, example_state released_channel 1)"
    by simp
  have h: "next_version_to_read released_channel = 2" "\<not> lock released_channel"
    by (simp_all add: released_channel_def example_defs)
  from a b g h show ?thesis by (intro conjI)
qed

text \<open>
  C10 as stated fails: on the freshly registered reader's channel, whose mutex nobody
  holds, \<^verbatim>\<open>ReadRelease(1)\<close> calls the header's \<^verbatim>\<open>ReadRelease\<close>, increments
  \<^verbatim>\<open>next_version_to_read\<close> and then unlocks a mutex that is not held: it has undefined
  behaviour instead of returning OK.
\<close>

theorem ReadRelease_unpaired_counterexample:
  "ReadRelease spec_header_ops (example_state reader_channel 1) 1 = Undefined"
  by (simp add: ReadRelease_def op_defs spec_defs example_defs add_overflows_def)

end
